theory Spec2Isabelle
  imports Complex_Main
begin

section \<open>Data model\<close>

text \<open>
  The boundary treatments of \<^verbatim>\<open>mirgecom/boundary.py\<close> work on arrays of nodal
  values. Every array operation the file uses (arithmetic, \<^verbatim>\<open>actx.np.where\<close>,
  \<^verbatim>\<open>actx.np.greater\<close>, \<^verbatim>\<open>actx.np.sqrt\<close>) acts on each node separately, so
  a scalar field is modelled by its value at one node and a field over a boundary by the
  list of its nodes. A vector quantity (momentum, velocity, normal) is the list of its
  components, as the numpy object arrays of the source are.

  The data model and the functions whose results are compared for equality (the
  reflected momentum of the slip walls, the farfield state) are written for any number
  type \<open>'a\<close> that has the arithmetic operations, and are read in two of them: the real
  numbers (exact arithmetic) and IEEE double precision (type \<open>double\<close> below: rounding
  to nearest, overflow to infinity, NaN), which is what the program computes with. The
  boundary engine and the other boundary conditions are modelled over the real numbers.
\<close>

type_synonym vec = "real list"

text \<open>
  \<^verbatim>\<open>ConservedVars\<close>: mass, energy, momentum (one entry per dimension) and species
  mass (one entry per species). The same class holds the conserved state (entries are
  scalars) and its gradient (entries are vectors), hence the type parameter.
\<close>

record 'a ConservedVars =
  mass :: 'a
  energy :: 'a
  momentum :: "'a list"
  species_mass :: "'a list"

text \<open>Dependent variables of a fluid state; \<open>mixture\<close> tells a mixture's from a single gas's.\<close>

record 'a DependentVars =
  temperature :: 'a
  pressure :: 'a
  speed_of_sound :: 'a
  mixture :: bool

record 'a FluidState =
  cv :: "'a ConservedVars"
  dv :: "'a DependentVars"

text \<open>
  The gas model is used through its equation of state only; the capabilities are those the
  boundary code calls (\<^verbatim>\<open>gas_model.eos.gamma\<close>, \<^verbatim>\<open>kinetic_energy\<close>,
  \<^verbatim>\<open>get_internal_energy\<close>, \<^verbatim>\<open>get_density\<close>) and those that the state factory needs.
\<close>

record 'a GasModel =
  eos_temperature :: "'a ConservedVars \<Rightarrow> 'a option \<Rightarrow> 'a"
  eos_pressure :: "'a ConservedVars \<Rightarrow> 'a \<Rightarrow> 'a"
  eos_speed_of_sound :: "'a ConservedVars \<Rightarrow> 'a \<Rightarrow> 'a"
  eos_gamma :: "'a ConservedVars \<Rightarrow> 'a \<Rightarrow> 'a"
  eos_get_internal_energy :: "'a \<Rightarrow> 'a list \<Rightarrow> 'a"
  eos_get_density :: "'a \<Rightarrow> 'a \<Rightarrow> 'a list \<Rightarrow> 'a"
  eos_kinetic_energy :: "'a ConservedVars \<Rightarrow> 'a"
  eos_mixture :: bool

subsection \<open>Array arithmetic\<close>

text \<open>
  The literals \<^verbatim>\<open>2\<close> and \<^verbatim>\<open>.5\<close>, in any of the number types: \<open>1 + 1\<close> and
  \<open>1 / (1 + 1)\<close> are exactly 2 and one half in both.
\<close>

definition two :: "'a::{one,plus}" where
  "two = 1 + 1"

definition half :: "'a::{one,plus,inverse}" where
  "half = 1 / two"

text \<open>
  \<^verbatim>\<open>np.dot\<close> of two object arrays multiplies the entries and adds the products from
  left to right. The componentwise operations follow. The operands of a binary operation
  have the same number of components wherever the source applies it (the ambient
  dimension); the theorems below state that as a hypothesis.
\<close>

definition np_dot :: "'a::{zero,plus,times} list \<Rightarrow> 'a list \<Rightarrow> 'a" where
  "np_dot a b = (case map2 (*) a b of [] \<Rightarrow> 0 | p # ps \<Rightarrow> foldl (+) p ps)"

definition smul :: "'a::times \<Rightarrow> 'a list \<Rightarrow> 'a list" where
  "smul c v = map ((*) c) v"

definition vadd :: "'a::plus list \<Rightarrow> 'a list \<Rightarrow> 'a list" where
  "vadd a b = map2 (+) a b"

definition vsub :: "'a::minus list \<Rightarrow> 'a list \<Rightarrow> 'a list" where
  "vsub a b = map2 (-) a b"

definition vneg :: "'a::uminus list \<Rightarrow> 'a list" where
  "vneg v = map uminus v"

subsection \<open>Collaborators outside the boundary module\<close>

text \<open>
  Modelled from the spec: \<^verbatim>\<open>make_conserved\<close> of \<^verbatim>\<open>mirgecom.fluid\<close> (the module is
  not among the sources). The spec's data model: a ConservedVars is the tuple of mass
  density, momentum density, total energy density and species mass density, rebuilt
  whenever a component changes. The \<^verbatim>\<open>dim\<close> argument carries no data.
\<close>

definition make_conserved :: "'a \<Rightarrow> 'a \<Rightarrow> 'a list \<Rightarrow> 'a list \<Rightarrow> 'a ConservedVars" where
  "make_conserved m e mom sp = \<lparr>mass = m, energy = e, momentum = mom, species_mass = sp\<rparr>"

text \<open>
  Modelled from the spec: \<^verbatim>\<open>make_fluid_state\<close> of \<^verbatim>\<open>mirgecom.gas_model\<close> (not among
  the sources). The spec: a FluidState owns one ConservedVars plus the dependent variables,
  produced by a factory taking a ConservedVars and a GasModel; the temperature is resolved
  from an optional seed, and pressure and speed of sound from the state and temperature.
\<close>

definition make_fluid_state :: "'a GasModel \<Rightarrow> 'a ConservedVars \<Rightarrow> 'a option \<Rightarrow> 'a FluidState" where
  "make_fluid_state gas_model c temperature_seed =
     (let t = eos_temperature gas_model c temperature_seed in
      \<lparr>cv = c,
       dv = \<lparr>temperature = t,
             pressure = eos_pressure gas_model c t,
             speed_of_sound = eos_speed_of_sound gas_model c t,
             mixture = eos_mixture gas_model\<rparr>\<rparr>)"

text \<open>
  Modelled from the spec: the accessors of \<^verbatim>\<open>FluidState\<close> the boundary code reads
  (\<^verbatim>\<open>mirgecom.gas_model\<close> and \<^verbatim>\<open>mirgecom.fluid\<close> are not among the sources):
  the densities are the components of the conserved state, velocity is momentum per unit
  mass and the mass fractions are species mass per unit mass.
\<close>

definition mass_density :: "'a FluidState \<Rightarrow> 'a" where
  "mass_density s = mass (cv s)"

definition energy_density :: "'a FluidState \<Rightarrow> 'a" where
  "energy_density s = energy (cv s)"

definition momentum_density :: "'a FluidState \<Rightarrow> 'a list" where
  "momentum_density s = momentum (cv s)"

definition species_mass_density :: "'a FluidState \<Rightarrow> 'a list" where
  "species_mass_density s = species_mass (cv s)"

definition velocity :: "'a::inverse FluidState \<Rightarrow> 'a list" where
  "velocity s = map (\<lambda>m. m / mass (cv s)) (momentum (cv s))"

definition species_mass_fractions :: "'a::inverse FluidState \<Rightarrow> 'a list" where
  "species_mass_fractions s = map (\<lambda>y. y / mass (cv s)) (species_mass (cv s))"

definition dim :: "'a FluidState \<Rightarrow> nat" where
  "dim s = length (momentum (cv s))"

definition nspecies :: "'a FluidState \<Rightarrow> nat" where
  "nspecies s = length (species_mass (cv s))"

definition is_mixture :: "'a FluidState \<Rightarrow> bool" where
  "is_mixture s = mixture (dv s)"

section \<open>Slip and symmetry walls\<close>

text \<open>
  \<^verbatim>\<open>AdiabaticSlipBoundary.adiabatic_slip_state\<close>. The discretization and the boundary
  tag enter through the unit normal \<^verbatim>\<open>nhat = thaw(discr.normal(btag), actx)\<close> only.
\<close>

definition adiabatic_slip_state ::
    "'a::{zero,one,plus,minus,times} GasModel \<Rightarrow> 'a list \<Rightarrow> 'a FluidState
      \<Rightarrow> 'a FluidState" where
  "adiabatic_slip_state gas_model nhat state_minus =
     (let cv_minus = cv state_minus;
          ext_mom = vsub (momentum cv_minus)
                         (smul (two * np_dot (momentum cv_minus) nhat) nhat);
          ext_cv = make_conserved (mass cv_minus) (energy cv_minus) ext_mom
                                  (species_mass cv_minus)
      in make_fluid_state gas_model ext_cv (Some (temperature (dv state_minus))))"

text \<open>\<^verbatim>\<open>SymmetryBoundary.adiabatic_wall_state_for_advection\<close>.\<close>

definition SymmetryBoundary_adiabatic_wall_state_for_advection ::
    "'a::{zero,one,plus,minus,times} GasModel \<Rightarrow> 'a list \<Rightarrow> 'a FluidState
      \<Rightarrow> 'a FluidState" where
  "SymmetryBoundary_adiabatic_wall_state_for_advection gas_model nhat state_minus =
     (let mom_plus = vsub (momentum_density state_minus)
                          (smul two (smul (np_dot (momentum_density state_minus) nhat) nhat));
          cv_plus = make_conserved (mass_density state_minus) (energy_density state_minus)
                                   mom_plus (species_mass_density state_minus)
      in make_fluid_state gas_model cv_plus (Some (temperature (dv state_minus))))"

section \<open>IEEE double precision\<close>

text \<open>
  The program computes with numpy's 64-bit floats. A \<open>double\<close> is a finite value, an
  infinity or NaN. A finite result of an operation is the exact result rounded to the
  nearest number with a 53-bit significand, ties to even, with the subnormal spacing
  \<open>2\<^sup>-\<^sup>1\<^sup>0\<^sup>7\<^sup>4\<close> below \<open>2\<^sup>-\<^sup>1\<^sup>0\<^sup>2\<^sup>2\<close>; a rounded result of magnitude \<open>2\<^sup>1\<^sup>0\<^sup>2\<^sup>4\<close> or more is
  an infinity. The two signed zeros are not told apart (they compare equal in the
  program); a division of a nonzero number by zero gives the infinity of the dividend's
  sign.
\<close>

datatype double = Finite real | PosInf | NegInf | NaN

text \<open>
  Powers of two with integer exponents, the binary exponent of a number and the spacing
  of the doubles around it.
\<close>

definition pow2 :: "int \<Rightarrow> real" where
  "pow2 k = (if 0 \<le> k then 2 ^ nat k else 1 / 2 ^ nat (- k))"

definition expo :: "real \<Rightarrow> int" where
  "expo x = \<lfloor>log 2 \<bar>x\<bar>\<rfloor>"

definition ulp :: "real \<Rightarrow> real" where
  "ulp x = pow2 (max (expo x) (- 1022) - 52)"

definition round_half_even :: "real \<Rightarrow> int" where
  "round_half_even y =
     (let f = \<lfloor>y\<rfloor> in
      if y - of_int f < 1/2 then f
      else if 1/2 < y - of_int f then f + 1
      else if even f then f else f + 1)"

definition fl :: "real \<Rightarrow> real" where
  "fl x = (if x = 0 then 0 else ulp x * of_int (round_half_even (x / ulp x)))"

definition double_overflow :: real where
  "double_overflow = 2 ^ 1024"

definition round_to_double :: "real \<Rightarrow> double" where
  "round_to_double x =
     (if double_overflow \<le> \<bar>fl x\<bar> then (if 0 < x then PosInf else NegInf)
      else Finite (fl x))"

text \<open>The finite numbers a double can hold.\<close>

definition is_double :: "real \<Rightarrow> bool" where
  "is_double x \<longleftrightarrow> (x = 0 \<or> x / ulp x \<in> \<int>) \<and> \<bar>x\<bar> < double_overflow"


text \<open>Addition, negation, multiplication and division of doubles.\<close>

fun dadd :: "double \<Rightarrow> double \<Rightarrow> double" where
  "dadd NaN y = NaN"
| "dadd x NaN = NaN"
| "dadd PosInf NegInf = NaN"
| "dadd NegInf PosInf = NaN"
| "dadd PosInf y = PosInf"
| "dadd x PosInf = PosInf"
| "dadd NegInf y = NegInf"
| "dadd x NegInf = NegInf"
| "dadd (Finite a) (Finite b) = round_to_double (a + b)"

fun dneg :: "double \<Rightarrow> double" where
  "dneg (Finite a) = Finite (- a)"
| "dneg PosInf = NegInf"
| "dneg NegInf = PosInf"
| "dneg NaN = NaN"

fun dmul :: "double \<Rightarrow> double \<Rightarrow> double" where
  "dmul NaN y = NaN"
| "dmul x NaN = NaN"
| "dmul (Finite a) (Finite b) = round_to_double (a * b)"
| "dmul (Finite a) PosInf = (if a = 0 then NaN else if 0 < a then PosInf else NegInf)"
| "dmul (Finite a) NegInf = (if a = 0 then NaN else if 0 < a then NegInf else PosInf)"
| "dmul PosInf (Finite b) = (if b = 0 then NaN else if 0 < b then PosInf else NegInf)"
| "dmul NegInf (Finite b) = (if b = 0 then NaN else if 0 < b then NegInf else PosInf)"
| "dmul PosInf PosInf = PosInf"
| "dmul PosInf NegInf = NegInf"
| "dmul NegInf PosInf = NegInf"
| "dmul NegInf NegInf = PosInf"

fun ddiv :: "double \<Rightarrow> double \<Rightarrow> double" where
  "ddiv NaN y = NaN"
| "ddiv x NaN = NaN"
| "ddiv (Finite a) (Finite b) =
     (if b = 0 then (if a = 0 then NaN else if 0 < a then PosInf else NegInf)
      else round_to_double (a / b))"
| "ddiv (Finite a) PosInf = Finite 0"
| "ddiv (Finite a) NegInf = Finite 0"
| "ddiv PosInf (Finite b) = (if 0 \<le> b then PosInf else NegInf)"
| "ddiv NegInf (Finite b) = (if 0 \<le> b then NegInf else PosInf)"
| "ddiv PosInf PosInf = NaN"
| "ddiv PosInf NegInf = NaN"
| "ddiv NegInf PosInf = NaN"
| "ddiv NegInf NegInf = NaN"

instantiation double :: "{zero,one,plus,minus,uminus,times,inverse}"
begin

definition zero_double_def: "0 = Finite 0"
definition one_double_def: "1 = Finite 1"
definition plus_double_def: "x + y = dadd x y"
definition uminus_double_def: "- x = dneg x"
definition minus_double_def: "x - y = dadd x (dneg y)"
definition times_double_def: "x * y = dmul x y"
definition divide_double_def: "divide x y = ddiv x y"
definition inverse_double_def: "inverse x = ddiv (Finite 1) x"

instance ..

end

fun dsqrt :: "double \<Rightarrow> double" where
  "dsqrt (Finite a) = (if a < 0 then NaN else round_to_double (sqrt a))"
| "dsqrt PosInf = PosInf"
| "dsqrt NegInf = NaN"
| "dsqrt NaN = NaN"

text \<open>A double that holds a finite number; a finite double whose double does not overflow.\<close>

definition finite_double :: "double \<Rightarrow> bool" where
  "finite_double d = (case d of Finite x \<Rightarrow> is_double x | _ \<Rightarrow> False)"

text \<open>
  The unit normal along axis \<open>k\<close> of \<open>n\<close> dimensions, with sign \<open>sg\<close> (1 or -1): the
  normals for which the arithmetic of a reflection is exact.
\<close>

definition axis_normal :: "nat \<Rightarrow> nat \<Rightarrow> double \<Rightarrow> double list" where
  "axis_normal n k sg = (replicate n 0)[k := sg]"

definition no_overflow_doubling :: "double \<Rightarrow> bool" where
  "no_overflow_doubling d = (case d of Finite x \<Rightarrow> \<bar>2 * x\<bar> < double_overflow | _ \<Rightarrow> False)"

section \<open>The prescribed-boundary engine\<close>

text \<open>
  Exceptions are values: a function of the source that can raise returns
  \<open>py_error + 'a\<close>, with \<open>Inl\<close> for the exception.
\<close>

datatype py_error = ValueError string | IndexError | TypeError

text \<open>\<^verbatim>\<open>TracePair(btag, interior=..., exterior=...)\<close> with its \<^verbatim>\<open>.int\<close> and \<^verbatim>\<open>.ext\<close>.\<close>

record 'a TracePair =
  interior :: 'a
  exterior :: 'a

type_synonym gradcv = "vec ConservedVars"

text \<open>
  The sub-strategies. Each takes \<^verbatim>\<open>(discr, btag, gas_model, state_minus, ...)\<close> in
  the source; here the discretization and the tag are replaced by the unit normal
  \<^verbatim>\<open>discr.normal(btag)\<close>, the one thing the functions read from them.
\<close>

type_synonym state_func_t = "real GasModel \<Rightarrow> vec \<Rightarrow> real FluidState \<Rightarrow> py_error + real FluidState"
type_synonym temperature_func_t = "real GasModel \<Rightarrow> vec \<Rightarrow> real FluidState \<Rightarrow> py_error + real"
type_synonym inviscid_num_flux_t =
  "real FluidState TracePair \<Rightarrow> real GasModel \<Rightarrow> vec \<Rightarrow> real ConservedVars"
type_synonym viscous_num_flux_t =
  "real GasModel \<Rightarrow> vec \<Rightarrow> real FluidState TracePair \<Rightarrow> gradcv TracePair \<Rightarrow> vec TracePair
    \<Rightarrow> real ConservedVars"
type_synonym inviscid_flux_func_t =
  "real GasModel \<Rightarrow> vec \<Rightarrow> real FluidState \<Rightarrow> inviscid_num_flux_t \<Rightarrow> py_error + real ConservedVars"
type_synonym viscous_flux_func_t =
  "real GasModel \<Rightarrow> vec \<Rightarrow> real FluidState \<Rightarrow> gradcv \<Rightarrow> vec \<Rightarrow> viscous_num_flux_t
    \<Rightarrow> py_error + real ConservedVars"
type_synonym grad_cv_func_t =
  "real GasModel \<Rightarrow> vec \<Rightarrow> real FluidState \<Rightarrow> gradcv \<Rightarrow> vec \<Rightarrow> py_error + gradcv"
type_synonym grad_temperature_func_t =
  "real GasModel \<Rightarrow> vec \<Rightarrow> real FluidState \<Rightarrow> gradcv \<Rightarrow> vec \<Rightarrow> py_error + vec"
type_synonym cv_gradient_flux_func_t = "real GasModel \<Rightarrow> vec \<Rightarrow> real FluidState \<Rightarrow> py_error + gradcv"
type_synonym temperature_gradient_flux_func_t =
  "real GasModel \<Rightarrow> vec \<Rightarrow> real FluidState \<Rightarrow> py_error + vec"
type_synonym grad_num_flux_t = "real \<Rightarrow> real \<Rightarrow> real"

text \<open>
  The keyword arguments of \<^verbatim>\<open>PrescribedFluidBoundary.__init__\<close>, \<open>None\<close> when left
  out. (\<^verbatim>\<open>boundary_grad_av_func\<close>, which only \<^verbatim>\<open>av_flux\<close> reads, is not modelled.)
\<close>

record PrescribedFluidBoundary_args =
  inviscid_flux_func :: "inviscid_flux_func_t option"
  boundary_state_func :: "state_func_t option"
  temperature_gradient_flux_func :: "temperature_gradient_flux_func_t option"
  boundary_temperature_func :: "temperature_func_t option"
  cv_gradient_flux_func :: "cv_gradient_flux_func_t option"
  gradient_numerical_flux_func :: "grad_num_flux_t option"
  viscous_flux_func :: "viscous_flux_func_t option"
  boundary_gradient_cv_func :: "grad_cv_func_t option"
  boundary_gradient_temperature_func :: "grad_temperature_func_t option"

definition no_args :: PrescribedFluidBoundary_args where
  "no_args = \<lparr>inviscid_flux_func = None, boundary_state_func = None,
     temperature_gradient_flux_func = None, boundary_temperature_func = None,
     cv_gradient_flux_func = None, gradient_numerical_flux_func = None,
     viscous_flux_func = None, boundary_gradient_cv_func = None,
     boundary_gradient_temperature_func = None\<rparr>"

text \<open>The constructed object: the attributes \<^verbatim>\<open>self._bnd_state_func\<close> and so on.\<close>

record PrescribedFluidBoundary =
  self_bnd_state_func :: state_func_t
  self_temperature_grad_flux_func :: temperature_gradient_flux_func_t
  self_inviscid_flux_func :: inviscid_flux_func_t
  self_bnd_temperature_func :: temperature_func_t
  self_grad_num_flux_func :: grad_num_flux_t
  self_cv_gradient_flux_func :: cv_gradient_flux_func_t
  self_viscous_flux_func :: viscous_flux_func_t
  self_bnd_grad_cv_func :: grad_cv_func_t
  self_bnd_grad_temperature_func :: grad_temperature_func_t

text \<open>
  Modelled from the spec: \<^verbatim>\<open>num_flux_central\<close> of \<^verbatim>\<open>mirgecom.flux\<close> (not among the
  sources). The spec: the default gradient numerical flux is a centered (average)
  combinator.
\<close>

definition num_flux_central :: grad_num_flux_t where
  "num_flux_central a b = (a + b) / 2"

text \<open>
  A gradient numerical flux acts on every component of a ConservedVars, and
  \<^verbatim>\<open>outer(q, nhat)\<close> multiplies every component by the normal.
\<close>

definition cv_map2 :: "(real \<Rightarrow> real \<Rightarrow> real) \<Rightarrow> real ConservedVars \<Rightarrow> real ConservedVars
    \<Rightarrow> real ConservedVars" where
  "cv_map2 f a b = \<lparr>mass = f (mass a) (mass b), energy = f (energy a) (energy b),
     momentum = map2 f (momentum a) (momentum b),
     species_mass = map2 f (species_mass a) (species_mass b)\<rparr>"

definition cv_outer :: "real ConservedVars \<Rightarrow> vec \<Rightarrow> gradcv" where
  "cv_outer q nhat = \<lparr>mass = smul (mass q) nhat, energy = smul (energy q) nhat,
     momentum = map (\<lambda>m. smul m nhat) (momentum q),
     species_mass = map (\<lambda>y. smul y nhat) (species_mass q)\<rparr>"

subsection \<open>Default boundary helpers\<close>

definition temperature_for_prescribed_state :: "state_func_t \<Rightarrow> temperature_func_t" where
  "temperature_for_prescribed_state bnd_state_func gas_model nhat state_minus =
     (case bnd_state_func gas_model nhat state_minus of
        Inl e \<Rightarrow> Inl e
      | Inr boundary_state \<Rightarrow> Inr (temperature (dv boundary_state)))"

definition temperature_for_interior_state :: temperature_func_t where
  "temperature_for_interior_state gas_model nhat state_minus =
     Inr (temperature (dv state_minus))"

definition identical_state :: state_func_t where
  "identical_state gas_model nhat state_minus = Inr state_minus"

definition identical_grad_cv :: grad_cv_func_t where
  "identical_grad_cv gas_model nhat state_minus grad_cv_minus grad_t_minus = Inr grad_cv_minus"

definition identical_grad_temperature :: grad_temperature_func_t where
  "identical_grad_temperature gas_model nhat state_minus grad_cv_minus grad_t_minus =
     Inr grad_t_minus"

definition gradient_flux_for_prescribed_cv ::
    "state_func_t \<Rightarrow> grad_num_flux_t \<Rightarrow> cv_gradient_flux_func_t" where
  "gradient_flux_for_prescribed_cv bnd_state_func grad_num_flux_func gas_model nhat state_minus =
     (case bnd_state_func gas_model nhat state_minus of
        Inl e \<Rightarrow> Inl e
      | Inr boundary_state \<Rightarrow>
          (let cv_pair = \<lparr>interior = cv state_minus, exterior = cv boundary_state\<rparr>
           in Inr (cv_outer (cv_map2 grad_num_flux_func (interior cv_pair) (exterior cv_pair))
                            nhat)))"

definition gradient_flux_for_prescribed_temperature ::
    "temperature_func_t \<Rightarrow> grad_num_flux_t \<Rightarrow> temperature_gradient_flux_func_t" where
  "gradient_flux_for_prescribed_temperature bnd_temperature_func grad_num_flux_func
       gas_model nhat state_minus =
     (case bnd_temperature_func gas_model nhat state_minus of
        Inl e \<Rightarrow> Inl e
      | Inr temperature_plus \<Rightarrow>
          (let bnd_tpair = \<lparr>interior = temperature (dv state_minus),
                            exterior = temperature_plus\<rparr>
           in Inr (smul (grad_num_flux_func (interior bnd_tpair) (exterior bnd_tpair)) nhat)))"

definition boundary_state_pair ::
    "state_func_t \<Rightarrow> real GasModel \<Rightarrow> vec \<Rightarrow> real FluidState \<Rightarrow> py_error + real FluidState TracePair" where
  "boundary_state_pair bnd_state_func gas_model nhat state_minus =
     (case bnd_state_func gas_model nhat state_minus of
        Inl e \<Rightarrow> Inl e
      | Inr state_plus \<Rightarrow> Inr \<lparr>interior = state_minus, exterior = state_plus\<rparr>)"

definition inviscid_flux_for_prescribed_state :: "state_func_t \<Rightarrow> inviscid_flux_func_t" where
  "inviscid_flux_for_prescribed_state bnd_state_func gas_model nhat state_minus
       numerical_flux_func =
     (case boundary_state_pair bnd_state_func gas_model nhat state_minus of
        Inl e \<Rightarrow> Inl e
      | Inr pair \<Rightarrow> Inr (numerical_flux_func pair gas_model nhat))"

definition viscous_flux_for_prescribed_state ::
    "state_func_t \<Rightarrow> grad_cv_func_t \<Rightarrow> grad_temperature_func_t \<Rightarrow> viscous_flux_func_t" where
  "viscous_flux_for_prescribed_state bnd_state_func bnd_grad_cv_func bnd_grad_temperature_func
       gas_model nhat state_minus grad_cv_minus grad_t_minus numerical_flux_func =
     (case boundary_state_pair bnd_state_func gas_model nhat state_minus of
        Inl e \<Rightarrow> Inl e
      | Inr state_pair \<Rightarrow>
     (case bnd_grad_cv_func gas_model nhat state_minus grad_cv_minus grad_t_minus of
        Inl e \<Rightarrow> Inl e
      | Inr grad_cv_plus \<Rightarrow>
     (case bnd_grad_temperature_func gas_model nhat state_minus grad_cv_minus grad_t_minus of
        Inl e \<Rightarrow> Inl e
      | Inr grad_t_plus \<Rightarrow>
          Inr (numerical_flux_func gas_model nhat state_pair
                 \<lparr>interior = grad_cv_minus, exterior = grad_cv_plus\<rparr>
                 \<lparr>interior = grad_t_minus, exterior = grad_t_plus\<rparr>))))"

subsection \<open>Construction and the four operations\<close>

text \<open>
  \<^verbatim>\<open>PrescribedFluidBoundary.__init__\<close>. The warning of \<^verbatim>\<open>warnings.warn\<close> is an
  effect: the constructor returns the object and the list of warnings it emitted. The
  defaults that read other attributes of \<^verbatim>\<open>self\<close> get the resolved ones.
\<close>

definition PrescribedFluidBoundary_init ::
    "PrescribedFluidBoundary_args \<Rightarrow> PrescribedFluidBoundary \<times> string list" where
  "PrescribedFluidBoundary_init args =
     (let warnings =
            (if inviscid_flux_func args = None \<and> boundary_state_func args = None
             then [''Using dummy boundary: copies interior solution.''] else []);
          bsf = (case boundary_state_func args of None \<Rightarrow> identical_state | Some f \<Rightarrow> f);
          iff = (case inviscid_flux_func args of
                   None \<Rightarrow> inviscid_flux_for_prescribed_state bsf | Some f \<Rightarrow> f);
          btf = (case boundary_temperature_func args of
                   None \<Rightarrow> temperature_for_prescribed_state bsf | Some f \<Rightarrow> f);
          gnf = (case gradient_numerical_flux_func args of
                   None \<Rightarrow> num_flux_central | Some f \<Rightarrow> f);
          cgf = (case cv_gradient_flux_func args of
                   None \<Rightarrow> gradient_flux_for_prescribed_cv bsf gnf | Some f \<Rightarrow> f);
          tgf = (case temperature_gradient_flux_func args of
                   None \<Rightarrow> gradient_flux_for_prescribed_temperature btf gnf | Some f \<Rightarrow> f);
          bgc = (case boundary_gradient_cv_func args of
                   None \<Rightarrow> identical_grad_cv | Some f \<Rightarrow> f);
          bgt = (case boundary_gradient_temperature_func args of
                   None \<Rightarrow> identical_grad_temperature | Some f \<Rightarrow> f);
          vff = (case viscous_flux_func args of
                   None \<Rightarrow> viscous_flux_for_prescribed_state bsf bgc bgt | Some f \<Rightarrow> f)
      in (\<lparr>self_bnd_state_func = bsf,
           self_temperature_grad_flux_func = tgf,
           self_inviscid_flux_func = iff,
           self_bnd_temperature_func = btf,
           self_grad_num_flux_func = gnf,
           self_cv_gradient_flux_func = cgf,
           self_viscous_flux_func = vff,
           self_bnd_grad_cv_func = bgc,
           self_bnd_grad_temperature_func = bgt\<rparr>, warnings))"

definition inviscid_divergence_flux :: "PrescribedFluidBoundary \<Rightarrow> inviscid_flux_func_t" where
  "inviscid_divergence_flux self gas_model nhat state_minus numerical_flux_func =
     self_inviscid_flux_func self gas_model nhat state_minus numerical_flux_func"

definition cv_gradient_flux :: "PrescribedFluidBoundary \<Rightarrow> cv_gradient_flux_func_t" where
  "cv_gradient_flux self gas_model nhat state_minus =
     self_cv_gradient_flux_func self gas_model nhat state_minus"

definition temperature_gradient_flux ::
    "PrescribedFluidBoundary \<Rightarrow> temperature_gradient_flux_func_t" where
  "temperature_gradient_flux self gas_model nhat state_minus =
     self_temperature_grad_flux_func self gas_model nhat state_minus"

definition viscous_divergence_flux :: "PrescribedFluidBoundary \<Rightarrow> viscous_flux_func_t" where
  "viscous_divergence_flux self gas_model nhat state_minus grad_cv_minus grad_t_minus
       numerical_flux_func =
     self_viscous_flux_func self gas_model nhat state_minus grad_cv_minus grad_t_minus
       numerical_flux_func"

text \<open>\<^verbatim>\<open>DummyBoundary.__init__\<close>: the engine with no override.\<close>

definition DummyBoundary_init :: "PrescribedFluidBoundary \<times> string list" where
  "DummyBoundary_init = PrescribedFluidBoundary_init no_args"

section \<open>Boundary conditions\<close>

text \<open>\<^verbatim>\<open>np.zeros(n)\<close> raises for a negative length.\<close>

definition np_zeros :: "int \<Rightarrow> py_error + vec" where
  "np_zeros n = (if n < 0 then Inl (ValueError ''negative dimensions are not allowed'')
                 else Inr (replicate (nat n) 0))"

subsection \<open>AdiabaticNoslipMovingBoundary\<close>

definition adiabatic_noslip_state :: "vec \<Rightarrow> real GasModel \<Rightarrow> vec \<Rightarrow> real FluidState \<Rightarrow> real FluidState" where
  "adiabatic_noslip_state wall_velocity gas_model nhat state_minus =
     (let wall_pen = smul (mass_density state_minus) (smul 2 wall_velocity);
          ext_mom = vsub wall_pen (momentum_density state_minus);
          c = make_conserved (mass_density state_minus) (energy_density state_minus) ext_mom
                             (species_mass_density state_minus)
      in make_fluid_state gas_model c (Some (temperature (dv state_minus))))"

record AdiabaticNoslipMovingBoundary =
  anm_wall_velocity :: vec
  anm_base :: PrescribedFluidBoundary

text \<open>
  \<^verbatim>\<open>AdiabaticNoslipMovingBoundary.__init__(wall_velocity=None, dim=2)\<close>. The base
  constructor runs first and cannot fail; the state function it is given reads
  \<^verbatim>\<open>self._wall_velocity\<close>, which is set only when the check has passed. The error's
  message is written with the word \<^verbatim>\<open>dim\<close> where the program puts the number.
\<close>

definition AdiabaticNoslipMovingBoundary_init ::
    "vec option \<Rightarrow> int \<Rightarrow> py_error + AdiabaticNoslipMovingBoundary \<times> string list" where
  "AdiabaticNoslipMovingBoundary_init wall_velocity dim_arg =
     (case (case wall_velocity of None \<Rightarrow> np_zeros dim_arg | Some v \<Rightarrow> Inr v) of
        Inl e \<Rightarrow> Inl e
      | Inr wv \<Rightarrow>
          if int (length wv) \<noteq> dim_arg
          then Inl (ValueError ''Specified wall velocity must be dim-vector.'')
          else
            (let (base, warnings) = PrescribedFluidBoundary_init
                   (no_args\<lparr>boundary_state_func :=
                              Some (\<lambda>gm nhat sm. Inr (adiabatic_noslip_state wv gm nhat sm)),
                            boundary_temperature_func := Some temperature_for_interior_state\<rparr>)
             in Inr (\<lparr>anm_wall_velocity = wv, anm_base = base\<rparr>, warnings)))"

subsection \<open>IsothermalNoSlipBoundary\<close>

definition isothermal_noslip_state :: "real \<Rightarrow> real GasModel \<Rightarrow> vec \<Rightarrow> real FluidState \<Rightarrow> real FluidState" where
  "isothermal_noslip_state wall_temp gas_model nhat state_minus =
     (let temperature_wall = wall_temp + 0 * mass_density state_minus;
          velocity_plus = vneg (velocity state_minus);
          mass_frac_plus = species_mass_fractions state_minus;
          internal_energy_plus =
            eos_get_internal_energy gas_model temperature_wall mass_frac_plus;
          total_energy_plus = mass_density state_minus
            * (internal_energy_plus + (1/2) * np_dot velocity_plus velocity_plus);
          cv_plus = make_conserved (mass_density state_minus) total_energy_plus
                      (vneg (momentum_density state_minus)) (species_mass_density state_minus);
          tseed = (if is_mixture state_minus then Some (temperature (dv state_minus)) else None)
      in make_fluid_state gas_model cv_plus tseed)"

text \<open>\<^verbatim>\<open>IsothermalNoSlipBoundary.temperature_bc\<close>.\<close>

definition IsothermalNoSlipBoundary_temperature_bc :: "real \<Rightarrow> real FluidState \<Rightarrow> real" where
  "IsothermalNoSlipBoundary_temperature_bc wall_temp state_minus =
     2 * wall_temp - temperature (dv state_minus)"

definition IsothermalNoSlipBoundary_init :: "real \<Rightarrow> PrescribedFluidBoundary \<times> string list" where
  "IsothermalNoSlipBoundary_init wall_temperature =
     PrescribedFluidBoundary_init
       (no_args\<lparr>boundary_state_func :=
                  Some (\<lambda>gm nhat sm. Inr (isothermal_noslip_state wall_temperature gm nhat sm)),
                boundary_temperature_func :=
                  Some (\<lambda>gm nhat sm.
                    Inr (IsothermalNoSlipBoundary_temperature_bc wall_temperature sm))\<rparr>)"

subsection \<open>Gradient of the conserved state at a wall\<close>

text \<open>Matrices are lists of rows: \<^verbatim>\<open>M@normal\<close>, \<^verbatim>\<open>np.outer\<close>, elementwise difference.\<close>

definition matvec :: "vec list \<Rightarrow> vec \<Rightarrow> vec" where
  "matvec M n = map (\<lambda>row. np_dot row n) M"

definition np_outer :: "vec \<Rightarrow> vec \<Rightarrow> vec list" where
  "np_outer a b = map (\<lambda>x. smul x b) a"

definition msub :: "vec list \<Rightarrow> vec list \<Rightarrow> vec list" where
  "msub A B = map2 vsub A B"

text \<open>
  The loop \<^verbatim>\<open>for i in range(state_minus.nspecies)\<close> of \<^verbatim>\<open>grad_cv_bc\<close>, over the indices
  still to visit; an index outside an array raises IndexError.
\<close>

fun grad_species_mass_loop ::
    "real \<Rightarrow> vec \<Rightarrow> vec \<Rightarrow> vec list \<Rightarrow> nat list \<Rightarrow> vec list \<Rightarrow> py_error + vec list" where
  "grad_species_mass_loop rho y grad_mass grad_y_plus [] acc = Inr acc"
| "grad_species_mass_loop rho y grad_mass grad_y_plus (i # rest) acc =
     (if i < length grad_y_plus \<and> i < length y \<and> i < length acc
      then grad_species_mass_loop rho y grad_mass grad_y_plus rest
             (acc[i := vadd (smul rho (grad_y_plus ! i)) (smul (y ! i) grad_mass)])
      else Inl IndexError)"

text \<open>
  \<^verbatim>\<open>grad_cv_bc(self, state_minus, grad_cv_minus, normal)\<close>: the source repeats this body
  verbatim in IsothermalWallBoundary, AdiabaticNoslipWallBoundary and SymmetryBoundary.
  \<^verbatim>\<open>species_mass_fraction_gradient\<close> is imported from \<^verbatim>\<open>mirgecom.fluid\<close>, which is
  not among the sources: it is a parameter.
\<close>

definition wall_grad_cv_bc ::
    "(real ConservedVars \<Rightarrow> gradcv \<Rightarrow> vec list) \<Rightarrow> real FluidState \<Rightarrow> gradcv \<Rightarrow> vec
      \<Rightarrow> py_error + gradcv" where
  "wall_grad_cv_bc species_mass_fraction_gradient state_minus grad_cv_minus normal =
     (case
        (if nspecies state_minus > 0
         then
           (let grad_y_minus = species_mass_fraction_gradient (cv state_minus) grad_cv_minus;
                grad_y_plus = msub grad_y_minus (np_outer (matvec grad_y_minus normal) normal)
            in grad_species_mass_loop (mass_density state_minus)
                 (species_mass_fractions state_minus) (mass grad_cv_minus) grad_y_plus
                 [0 ..< nspecies state_minus] (map (smul 0) grad_y_plus))
         else Inr (map (smul 1) (species_mass grad_cv_minus)))
      of Inl e \<Rightarrow> Inl e
       | Inr grad_species_mass_plus \<Rightarrow>
           Inr (make_conserved (mass grad_cv_minus) (energy grad_cv_minus)
                  (momentum grad_cv_minus) grad_species_mass_plus))"

definition IsothermalWallBoundary_grad_cv_bc ::
    "(real ConservedVars \<Rightarrow> gradcv \<Rightarrow> vec list) \<Rightarrow> real FluidState \<Rightarrow> gradcv \<Rightarrow> vec
      \<Rightarrow> py_error + gradcv" where
  "IsothermalWallBoundary_grad_cv_bc = wall_grad_cv_bc"

definition AdiabaticNoslipWallBoundary_grad_cv_bc ::
    "(real ConservedVars \<Rightarrow> gradcv \<Rightarrow> vec list) \<Rightarrow> real FluidState \<Rightarrow> gradcv \<Rightarrow> vec
      \<Rightarrow> py_error + gradcv" where
  "AdiabaticNoslipWallBoundary_grad_cv_bc = wall_grad_cv_bc"

definition SymmetryBoundary_grad_cv_bc ::
    "(real ConservedVars \<Rightarrow> gradcv \<Rightarrow> vec list) \<Rightarrow> real FluidState \<Rightarrow> gradcv \<Rightarrow> vec
      \<Rightarrow> py_error + gradcv" where
  "SymmetryBoundary_grad_cv_bc = wall_grad_cv_bc"

text \<open>\<^verbatim>\<open>f_ext@normal\<close>: every component of the flux dotted with the normal.\<close>

definition cv_dot_normal :: "gradcv \<Rightarrow> vec \<Rightarrow> real ConservedVars" where
  "cv_dot_normal f n = \<lparr>mass = np_dot (mass f) n, energy = np_dot (energy f) n,
     momentum = matvec (momentum f) n, species_mass = matvec (species_mass f) n\<rparr>"

subsection \<open>IsothermalWallBoundary\<close>

definition isothermal_wall_state :: "real \<Rightarrow> real GasModel \<Rightarrow> vec \<Rightarrow> real FluidState \<Rightarrow> real FluidState" where
  "isothermal_wall_state wall_temp gas_model nhat state_minus =
     (let temperature_wall = wall_temp + 0 * mass_density state_minus;
          mom_plus = smul (mass_density state_minus * 0) (velocity state_minus);
          mass_frac_plus = species_mass_fractions state_minus;
          internal_energy_plus =
            eos_get_internal_energy gas_model temperature_wall mass_frac_plus;
          total_energy_plus = mass_density state_minus * internal_energy_plus;
          cv_plus = make_conserved (mass_density state_minus) total_energy_plus mom_plus
                      (species_mass_density state_minus)
      in make_fluid_state gas_model cv_plus (Some (temperature (dv state_minus))))"

definition IsothermalWallBoundary_inviscid_wall_flux :: inviscid_flux_func_t where
  "IsothermalWallBoundary_inviscid_wall_flux gas_model nhat state_minus numerical_flux_func =
     (let wall_cv = make_conserved (mass_density state_minus) (energy_density state_minus)
                      (vneg (momentum_density state_minus)) (species_mass_density state_minus);
          wall_state = make_fluid_state gas_model wall_cv (Some (temperature (dv state_minus)));
          state_pair = \<lparr>interior = state_minus, exterior = wall_state\<rparr>
      in Inr (numerical_flux_func state_pair gas_model nhat))"

definition IsothermalWallBoundary_temperature_bc :: "real \<Rightarrow> real FluidState \<Rightarrow> real" where
  "IsothermalWallBoundary_temperature_bc wall_temp state_minus =
     0 * temperature (dv state_minus) + wall_temp"

text \<open>
  \<^verbatim>\<open>IsothermalWallBoundary.viscous_wall_flux\<close>. \<^verbatim>\<open>viscous_flux\<close> is imported from
  \<^verbatim>\<open>mirgecom.viscous\<close>, not among the sources: a parameter. The method reads
  \<^verbatim>\<open>self._bnd_grad_temperature_func\<close>, passed here as an argument.
\<close>

definition IsothermalWallBoundary_viscous_wall_flux ::
    "real \<Rightarrow> (real FluidState \<Rightarrow> gradcv \<Rightarrow> vec \<Rightarrow> gradcv)
      \<Rightarrow> (real ConservedVars \<Rightarrow> gradcv \<Rightarrow> vec list)
      \<Rightarrow> grad_temperature_func_t \<Rightarrow> viscous_flux_func_t" where
  "IsothermalWallBoundary_viscous_wall_flux wall_temp viscous_flux
       species_mass_fraction_gradient bnd_grad_temperature_func
       gas_model normal state_minus grad_cv_minus grad_t_minus numerical_flux_func =
     (let state_plus = isothermal_wall_state wall_temp gas_model normal state_minus in
      case IsothermalWallBoundary_grad_cv_bc species_mass_fraction_gradient state_minus
             grad_cv_minus normal of
        Inl e \<Rightarrow> Inl e
      | Inr grad_cv_plus \<Rightarrow>
     (case bnd_grad_temperature_func gas_model normal state_minus grad_cv_minus grad_t_minus of
        Inl e \<Rightarrow> Inl e
      | Inr grad_t_plus \<Rightarrow>
          (let f_ext = viscous_flux state_plus grad_cv_plus grad_t_plus
           in Inr (cv_dot_normal f_ext normal))))"

text \<open>
  \<^verbatim>\<open>IsothermalWallBoundary.__init__\<close>. No \<^verbatim>\<open>boundary_gradient_temperature_func\<close> is
  passed, so \<^verbatim>\<open>self._bnd_grad_temperature_func\<close> is the engine's default. The engine's
  own viscous path would call \<^verbatim>\<open>grad_cv_bc\<close> without its \<^verbatim>\<open>normal\<close> argument, a
  TypeError; the class overrides that path.
\<close>

definition IsothermalWallBoundary_init ::
    "real \<Rightarrow> (real FluidState \<Rightarrow> gradcv \<Rightarrow> vec \<Rightarrow> gradcv)
      \<Rightarrow> (real ConservedVars \<Rightarrow> gradcv \<Rightarrow> vec list)
      \<Rightarrow> PrescribedFluidBoundary \<times> string list" where
  "IsothermalWallBoundary_init wall_temperature viscous_flux species_mass_fraction_gradient =
     PrescribedFluidBoundary_init
       (no_args\<lparr>boundary_state_func :=
                  Some (\<lambda>gm nhat sm. Inr (isothermal_wall_state wall_temperature gm nhat sm)),
                inviscid_flux_func := Some IsothermalWallBoundary_inviscid_wall_flux,
                viscous_flux_func :=
                  Some (IsothermalWallBoundary_viscous_wall_flux wall_temperature viscous_flux
                          species_mass_fraction_gradient identical_grad_temperature),
                boundary_temperature_func :=
                  Some (\<lambda>gm nhat sm.
                    Inr (IsothermalWallBoundary_temperature_bc wall_temperature sm)),
                boundary_gradient_cv_func := Some (\<lambda>gm nhat sm gcv gt. Inl TypeError)\<rparr>)"

subsection \<open>AdiabaticNoslipWallBoundary\<close>

text \<open>
  \<^verbatim>\<open>AdiabaticNoslipWallBoundary.adiabatic_wall_state_for_advection\<close> and
  \<^verbatim>\<open>adiabatic_wall_state_for_diffusion\<close>.
\<close>

definition adiabatic_wall_state_for_advection :: "real GasModel \<Rightarrow> vec \<Rightarrow> real FluidState \<Rightarrow> real FluidState" where
  "adiabatic_wall_state_for_advection gas_model nhat state_minus =
     (let mom_plus = vneg (momentum_density state_minus);
          cv_plus = make_conserved (mass_density state_minus) (energy_density state_minus)
                      mom_plus (species_mass_density state_minus)
      in make_fluid_state gas_model cv_plus (Some (temperature (dv state_minus))))"

definition adiabatic_wall_state_for_diffusion :: "real GasModel \<Rightarrow> vec \<Rightarrow> real FluidState \<Rightarrow> real FluidState" where
  "adiabatic_wall_state_for_diffusion gas_model nhat state_minus =
     (let mom_plus = smul 0 (momentum_density state_minus);
          cv_plus = make_conserved (mass_density state_minus) (energy_density state_minus)
                      mom_plus (species_mass_density state_minus)
      in make_fluid_state gas_model cv_plus (Some (temperature (dv state_minus))))"

definition AdiabaticNoslipWallBoundary_inviscid_wall_flux :: inviscid_flux_func_t where
  "AdiabaticNoslipWallBoundary_inviscid_wall_flux gas_model nhat state_minus
       numerical_flux_func =
     (let wall_state = adiabatic_wall_state_for_advection gas_model nhat state_minus;
          state_pair = \<lparr>interior = state_minus, exterior = wall_state\<rparr>
      in Inr (numerical_flux_func state_pair gas_model nhat))"

definition AdiabaticNoslipWallBoundary_temperature_bc :: "real FluidState \<Rightarrow> real" where
  "AdiabaticNoslipWallBoundary_temperature_bc state_minus = temperature (dv state_minus)"

definition grad_temperature_bc :: "vec \<Rightarrow> vec \<Rightarrow> vec" where
  "grad_temperature_bc grad_t_minus normal =
     vsub grad_t_minus (smul (np_dot grad_t_minus normal) normal)"

definition AdiabaticNoslipWallBoundary_viscous_wall_flux ::
    "(real FluidState \<Rightarrow> gradcv \<Rightarrow> vec \<Rightarrow> gradcv)
      \<Rightarrow> (real ConservedVars \<Rightarrow> gradcv \<Rightarrow> vec list) \<Rightarrow> viscous_flux_func_t" where
  "AdiabaticNoslipWallBoundary_viscous_wall_flux viscous_flux species_mass_fraction_gradient
       gas_model normal state_minus grad_cv_minus grad_t_minus numerical_flux_func =
     (let state_plus = adiabatic_wall_state_for_diffusion gas_model normal state_minus in
      case AdiabaticNoslipWallBoundary_grad_cv_bc species_mass_fraction_gradient state_minus
             grad_cv_minus normal of
        Inl e \<Rightarrow> Inl e
      | Inr grad_cv_plus \<Rightarrow>
          (let grad_t_plus = grad_temperature_bc grad_t_minus normal;
               f_ext = viscous_flux state_plus grad_cv_plus grad_t_plus
           in Inr (cv_dot_normal f_ext normal)))"

definition AdiabaticNoslipWallBoundary_init ::
    "(real FluidState \<Rightarrow> gradcv \<Rightarrow> vec \<Rightarrow> gradcv)
      \<Rightarrow> (real ConservedVars \<Rightarrow> gradcv \<Rightarrow> vec list)
      \<Rightarrow> PrescribedFluidBoundary \<times> string list" where
  "AdiabaticNoslipWallBoundary_init viscous_flux species_mass_fraction_gradient =
     PrescribedFluidBoundary_init
       (no_args\<lparr>boundary_state_func :=
                  Some (\<lambda>gm nhat sm. Inr (adiabatic_wall_state_for_advection gm nhat sm)),
                inviscid_flux_func := Some AdiabaticNoslipWallBoundary_inviscid_wall_flux,
                viscous_flux_func :=
                  Some (AdiabaticNoslipWallBoundary_viscous_wall_flux viscous_flux
                          species_mass_fraction_gradient),
                boundary_temperature_func :=
                  Some (\<lambda>gm nhat sm. Inr (AdiabaticNoslipWallBoundary_temperature_bc sm)),
                boundary_gradient_cv_func := Some (\<lambda>gm nhat sm gcv gt. Inl TypeError)\<rparr>)"

subsection \<open>FarfieldBoundary\<close>

text \<open>
  Addition of two one-dimensional arrays with numpy's broadcasting: equal lengths add
  componentwise, a length-one operand is stretched, anything else raises. Adding
  \<^verbatim>\<open>None\<close> to an array applies \<^verbatim>\<open>+\<close> to each entry and \<^verbatim>\<open>None\<close>: nothing
  happens on an empty array, a TypeError otherwise.
\<close>

definition np_add :: "'a::plus list \<Rightarrow> 'a list \<Rightarrow> py_error + 'a list" where
  "np_add a b =
     (if length a = length b then Inr (map2 (+) a b)
      else if length b = 1 then Inr (map (\<lambda>x. x + b ! 0) a)
      else if length a = 1 then Inr (map (\<lambda>y. a ! 0 + y) b)
      else Inl (ValueError ''operands could not be broadcast together''))"

definition np_add_opt :: "'a::plus list \<Rightarrow> 'a list option \<Rightarrow> py_error + 'a list" where
  "np_add_opt a b =
     (case b of
        None \<Rightarrow> (if a = [] then Inr [] else Inl TypeError)
      | Some b' \<Rightarrow> np_add a b')"

record FarfieldBoundary =
  ff_temperature :: real
  ff_pressure :: real
  ff_species_mass_fractions :: "vec option"
  ff_velocity :: vec
  ff_base :: PrescribedFluidBoundary

text \<open>
  \<^verbatim>\<open>FarfieldBoundary.farfield_state\<close>; the first four arguments are the attributes
  \<^verbatim>\<open>self._temperature\<close>, \<^verbatim>\<open>self._pressure\<close>, \<^verbatim>\<open>self._species_mass_fractions\<close> and
  \<^verbatim>\<open>self._velocity\<close>.
\<close>

definition farfield_state ::
    "'a::{zero,one,plus,times,inverse} \<Rightarrow> 'a \<Rightarrow> 'a list option \<Rightarrow> 'a list \<Rightarrow> 'a GasModel
      \<Rightarrow> 'a list \<Rightarrow> 'a FluidState \<Rightarrow> py_error + 'a FluidState" where
  "farfield_state self_temperature self_pressure self_species_mass_fractions self_velocity
       gas_model nhat state_minus =
     (case np_add_opt (smul 0 (species_mass_fractions state_minus))
             self_species_mass_fractions of
        Inl e \<Rightarrow> Inl e
      | Inr free_stream_mass_fractions \<Rightarrow>
     (let free_stream_temperature = 0 * temperature (dv state_minus) + self_temperature;
          free_stream_pressure = 0 * pressure (dv state_minus) + self_pressure;
          free_stream_density = eos_get_density gas_model free_stream_pressure
                                  free_stream_temperature free_stream_mass_fractions
      in case np_add (smul 0 (velocity state_minus)) self_velocity of
        Inl e \<Rightarrow> Inl e
      | Inr free_stream_velocity \<Rightarrow>
     (let free_stream_internal_energy = eos_get_internal_energy gas_model
                                          free_stream_temperature free_stream_mass_fractions;
          free_stream_total_energy = free_stream_density
            * (free_stream_internal_energy
               + half * np_dot free_stream_velocity free_stream_velocity);
          free_stream_spec_mass = smul free_stream_density free_stream_mass_fractions;
          cv_infinity = make_conserved free_stream_density free_stream_total_energy
                          (smul free_stream_density free_stream_velocity)
                          free_stream_spec_mass
      in Inr (make_fluid_state gas_model cv_infinity (Some free_stream_temperature)))))"

definition FarfieldBoundary_temperature_bc :: "real \<Rightarrow> real FluidState \<Rightarrow> real" where
  "FarfieldBoundary_temperature_bc self_temperature state_minus =
     0 * temperature (dv state_minus) + self_temperature"

text \<open>
  \<^verbatim>\<open>FarfieldBoundary.__init__(numdim, numspecies, free_stream_temperature,
  free_stream_pressure, free_stream_velocity=None, free_stream_mass_fractions=None)\<close>.
\<close>

definition FarfieldBoundary_init ::
    "int \<Rightarrow> int \<Rightarrow> real \<Rightarrow> real \<Rightarrow> vec option \<Rightarrow> vec option
      \<Rightarrow> py_error + FarfieldBoundary \<times> string list" where
  "FarfieldBoundary_init numdim numspecies free_stream_temperature free_stream_pressure
       free_stream_velocity free_stream_mass_fractions =
     (case (case free_stream_velocity of None \<Rightarrow> np_zeros numdim | Some v \<Rightarrow> Inr v) of
        Inl e \<Rightarrow> Inl e
      | Inr fsv \<Rightarrow>
          if int (length fsv) \<noteq> numdim
          then Inl (ValueError ''Free-stream velocity must be of ambient dimension.'')
          else
          case (if numspecies > 0
                then (case free_stream_mass_fractions of
                        None \<Rightarrow>
                          Some (ValueError ''Free-stream species mixture fractions must be given.'')
                      | Some y \<Rightarrow>
                          if int (length y) \<noteq> numspecies
                          then Some (ValueError
                                 ''Free-stream species mixture fractions of improper size.'')
                          else None)
                else None) of
            Some e \<Rightarrow> Inl e
          | None \<Rightarrow>
            (let (base, warnings) = PrescribedFluidBoundary_init
                   (no_args\<lparr>boundary_state_func :=
                              Some (farfield_state free_stream_temperature free_stream_pressure
                                      free_stream_mass_fractions fsv),
                            boundary_temperature_func :=
                              Some (\<lambda>gm nhat sm. Inr (FarfieldBoundary_temperature_bc
                                                        free_stream_temperature sm))\<rparr>)
             in Inr (\<lparr>ff_temperature = free_stream_temperature,
                      ff_pressure = free_stream_pressure,
                      ff_species_mass_fractions = free_stream_mass_fractions,
                      ff_velocity = fsv,
                      ff_base = base\<rparr>, warnings)))"

subsection \<open>OutflowBoundary\<close>

text \<open>The vectorized conditional and comparison, at one node.\<close>

definition np_greater :: "real \<Rightarrow> real \<Rightarrow> bool" where
  "np_greater a b = (a > b)"

definition np_where :: "bool \<Rightarrow> real \<Rightarrow> real \<Rightarrow> real" where
  "np_where c a b = (if c then a else b)"

text \<open>\<^verbatim>\<open>OutflowBoundary.outflow_state\<close>; the first argument is \<^verbatim>\<open>self._pressure\<close>.\<close>

definition outflow_state :: "real \<Rightarrow> real GasModel \<Rightarrow> vec \<Rightarrow> real FluidState \<Rightarrow> real FluidState" where
  "outflow_state self_pressure gas_model nhat state_minus =
     (let boundary_vel = smul (np_dot (velocity state_minus) nhat) nhat;
          boundary_speed = sqrt (np_dot boundary_vel boundary_vel);
          speed_of_sound = speed_of_sound (dv state_minus);
          kinetic_energy = eos_kinetic_energy gas_model (cv state_minus);
          gamma = eos_gamma gas_model (cv state_minus) (temperature (dv state_minus));
          external_pressure = 2 * self_pressure - pressure (dv state_minus);
          boundary_pressure = np_where (np_greater boundary_speed speed_of_sound)
                                (pressure (dv state_minus)) external_pressure;
          internal_energy = boundary_pressure / (gamma - 1);
          total_energy = internal_energy + kinetic_energy;
          cv_outflow = make_conserved (mass (cv state_minus)) total_energy
                         (momentum (cv state_minus)) (species_mass (cv state_minus))
      in make_fluid_state gas_model cv_outflow (Some (temperature (dv state_minus))))"

text \<open>
  Over a boundary field (the list of its nodes, each with its normal) every operation of
  \<^verbatim>\<open>outflow_state\<close> acts node by node.
\<close>

definition outflow_state_field ::
    "real \<Rightarrow> real GasModel \<Rightarrow> vec list \<Rightarrow> real FluidState list \<Rightarrow> real FluidState list" where
  "outflow_state_field self_pressure gas_model nhats states =
     map2 (outflow_state self_pressure gas_model) nhats states"

definition OutflowBoundary_init :: "real \<Rightarrow> PrescribedFluidBoundary \<times> string list" where
  "OutflowBoundary_init boundary_pressure =
     PrescribedFluidBoundary_init
       (no_args\<lparr>boundary_state_func :=
                  Some (\<lambda>gm nhat sm. Inr (outflow_state boundary_pressure gm nhat sm))\<rparr>)"

section \<open>The Euler operator\<close>

text \<open>
  \<^verbatim>\<open>euler_operator\<close> of \<^verbatim>\<open>mirgecom/euler.py\<close> works on whole fields and only through
  its collaborators (the discretization's projections and trace-pair exchange, the gas
  model's state factory, the flux functions, the divergence operator), none of which is
  among the sources: they are the fields of an environment, and the fields' types are
  type parameters.
\<close>

datatype DOFDesc = DOFDesc (domain_tag: string) (discr_tag: "string option")

definition as_dofdesc :: "string \<Rightarrow> DOFDesc" where
  "as_dofdesc tag = DOFDesc tag None"

definition with_discr_tag :: "DOFDesc \<Rightarrow> string option \<Rightarrow> DOFDesc" where
  "with_discr_tag d q = DOFDesc (domain_tag d) q"

text \<open>
  \<^verbatim>\<open>interior_trace_pairs\<close> exchanges a field with the neighbouring partitions. The
  exchange is an effect: the operator returns, with its result, the list of the fields
  it exchanged.
\<close>

datatype exchanged = ExchangedCV | ExchangedTemperature

record ('st, 'cv, 't, 'gm, 'nf, 'b, 'f, 'vf, 'r) euler_env =
  state_cv :: "'st \<Rightarrow> 'cv"
  state_temperature :: "'st \<Rightarrow> 't"
  state_is_mixture :: "'st \<Rightarrow> bool"
  project_cv :: "DOFDesc \<Rightarrow> DOFDesc \<Rightarrow> 'cv \<Rightarrow> 'cv"
  project_temperature :: "DOFDesc \<Rightarrow> DOFDesc \<Rightarrow> 't \<Rightarrow> 't"
  interior_trace_pairs_cv :: "'cv \<Rightarrow> (DOFDesc \<times> 'cv TracePair) list"
  interior_trace_pairs_temperature :: "'t \<Rightarrow> (DOFDesc \<times> 't TracePair) list"
  project_fluid_state :: "DOFDesc \<Rightarrow> DOFDesc \<Rightarrow> 'st \<Rightarrow> 'gm \<Rightarrow> 'st"
  make_fluid_state_trace_pairs ::
    "(DOFDesc \<times> 'cv TracePair) list \<Rightarrow> 'gm \<Rightarrow> (DOFDesc \<times> 't TracePair) list option
      \<Rightarrow> (DOFDesc \<times> 'st TracePair) list"
  inviscid_flux :: "'st \<Rightarrow> 'vf"
  inviscid_facial_flux :: "'gm \<Rightarrow> DOFDesc \<times> 'st TracePair \<Rightarrow> 'nf \<Rightarrow> 'f"
  boundary_inviscid_divergence_flux :: "'b \<Rightarrow> DOFDesc \<Rightarrow> 'gm \<Rightarrow> 'st \<Rightarrow> real \<Rightarrow> 'nf \<Rightarrow> 'f"
  div_operator :: "DOFDesc \<Rightarrow> DOFDesc \<Rightarrow> 'vf \<Rightarrow> 'f \<Rightarrow> 'r"

text \<open>The local function \<^verbatim>\<open>interp_to_surf_quad\<close>, for a field projected by \<open>project\<close>.\<close>

definition interp_to_surf_quad ::
    "(DOFDesc \<Rightarrow> DOFDesc \<Rightarrow> 'a \<Rightarrow> 'a) \<Rightarrow> string option \<Rightarrow> DOFDesc \<times> 'a TracePair
      \<Rightarrow> DOFDesc \<times> 'a TracePair" where
  "interp_to_surf_quad project quadrature_tag utpair =
     (let local_dd = fst utpair;
          local_dd_quad = with_discr_tag local_dd quadrature_tag
      in (local_dd_quad,
          \<lparr>interior = project local_dd local_dd_quad (interior (snd utpair)),
           exterior = project local_dd local_dd_quad (exterior (snd utpair))\<rparr>))"

definition cv_interior_pairs ::
    "('st, 'cv, 't, 'gm, 'nf, 'b, 'f, 'vf, 'r) euler_env \<Rightarrow> 'st \<Rightarrow> string option
      \<Rightarrow> (DOFDesc \<times> 'cv TracePair) list" where
  "cv_interior_pairs env state quadrature_tag =
     map (interp_to_surf_quad (project_cv env) quadrature_tag)
         (interior_trace_pairs_cv env (state_cv env state))"

text \<open>
  The local variable \<^verbatim>\<open>tseed_interior_pairs\<close>: \<open>None\<close> unless the state is a mixture
  (\<^verbatim>\<open>if state.is_mixture > 0\<close>), and then the temperature's interior trace pairs.
\<close>

definition tseed_interior_pairs ::
    "('st, 'cv, 't, 'gm, 'nf, 'b, 'f, 'vf, 'r) euler_env \<Rightarrow> 'st \<Rightarrow> string option
      \<Rightarrow> (DOFDesc \<times> 't TracePair) list option" where
  "tseed_interior_pairs env state quadrature_tag =
     (if state_is_mixture env state
      then Some (map (interp_to_surf_quad (project_temperature env) quadrature_tag)
                     (interior_trace_pairs_temperature env (state_temperature env state)))
      else None)"

text \<open>Python's \<^verbatim>\<open>sum\<close>: the items added from the left, starting at zero.\<close>

definition py_sum :: "'f::monoid_add list \<Rightarrow> 'f" where
  "py_sum xs = foldl (+) 0 xs"

text \<open>
  \<^verbatim>\<open>euler_operator(discr, state, gas_model, boundaries, time,
  inviscid_numerical_flux_func, quadrature_tag)\<close>. \<^verbatim>\<open>boundaries\<close> maps tags to boundary
  objects, in insertion order; \<^verbatim>\<open>boundary_states\<close> is keyed by the same tags, so that
  \<^verbatim>\<open>boundary_states[btag]\<close> is the projection computed for \<^verbatim>\<open>btag\<close>.
\<close>

definition euler_operator ::
    "('st, 'cv, 't, 'gm, 'nf, 'b, 'f::monoid_add, 'vf, 'r::uminus) euler_env \<Rightarrow> 'st \<Rightarrow> 'gm
      \<Rightarrow> (string \<times> 'b) list \<Rightarrow> real \<Rightarrow> 'nf \<Rightarrow> string option \<Rightarrow> 'r \<times> exchanged list" where
  "euler_operator env state gas_model boundaries time inviscid_numerical_flux_func
       quadrature_tag =
     (let dd_base = as_dofdesc ''vol'';
          dd_vol = DOFDesc ''vol'' quadrature_tag;
          dd_faces = DOFDesc ''all_faces'' quadrature_tag;
          boundary_states = (\<lambda>btag. project_fluid_state env dd_base
              (with_discr_tag (as_dofdesc btag) quadrature_tag) state gas_model);
          cv_pairs = cv_interior_pairs env state quadrature_tag;
          tseed_pairs = tseed_interior_pairs env state quadrature_tag;
          exchanges = [ExchangedCV]
            @ (if state_is_mixture env state then [ExchangedTemperature] else []);
          interior_states = make_fluid_state_trace_pairs env cv_pairs gas_model tseed_pairs;
          state_quad = project_fluid_state env dd_base dd_vol state gas_model;
          inviscid_flux_vol = inviscid_flux env state_quad;
          inviscid_flux_bnd =
            py_sum (map (\<lambda>(btag, b). boundary_inviscid_divergence_flux env b
                          (with_discr_tag (as_dofdesc btag) quadrature_tag) gas_model
                          (boundary_states btag) time inviscid_numerical_flux_func)
                        boundaries)
            + py_sum (map (\<lambda>state_pair. inviscid_facial_flux env gas_model state_pair
                            inviscid_numerical_flux_func)
                          interior_states)
      in (- div_operator env dd_vol dd_faces inviscid_flux_vol inviscid_flux_bnd,
          exchanges))"

section \<open>Notions used to state the properties, and concrete inputs\<close>

text \<open>The part of a vector \<open>m\<close> tangential to the normal \<open>n\<close>: \<open>m - (m \<cdot> n) n\<close>.\<close>

definition tangential :: "'a::{zero,plus,minus,times} list \<Rightarrow> 'a list \<Rightarrow> 'a list" where
  "tangential m n = vsub m (smul (np_dot m n) n)"

text \<open>
  An ideal single gas (\<open>p = (\<gamma> - 1) (\<rho>E - kinetic energy)\<close>, gas constant \<open>R\<close>), the
  concrete gas model of the examples below.
\<close>

definition ideal_gas :: "real \<Rightarrow> real \<Rightarrow> real GasModel" where
  "ideal_gas g R =
     \<lparr>eos_temperature = (\<lambda>c seed. (g - 1) / R
          * (energy c - np_dot (momentum c) (momentum c) / (2 * mass c)) / mass c),
      eos_pressure = (\<lambda>c t. (g - 1) * (energy c - np_dot (momentum c) (momentum c) / (2 * mass c))),
      eos_speed_of_sound = (\<lambda>c t. sqrt (g / mass c
          * ((g - 1) * (energy c - np_dot (momentum c) (momentum c) / (2 * mass c))))),
      eos_gamma = (\<lambda>c t. g),
      eos_get_internal_energy = (\<lambda>t y. R * t / (g - 1)),
      eos_get_density = (\<lambda>p t y. p / (R * t)),
      eos_kinetic_energy = (\<lambda>c. np_dot (momentum c) (momentum c) / (2 * mass c)),
      eos_mixture = False\<rparr>"

text \<open>A two-dimensional interior state of that gas: \<open>\<rho> = 1\<close>, \<open>\<rho>V = (3, 4)\<close>, \<open>\<rho>E = 20\<close>.\<close>

definition example_state :: "real FluidState" where
  "example_state = make_fluid_state (ideal_gas (7/5) 1)
     (make_conserved 1 20 [3, 4] []) None"


text \<open>
  A state with one species (\<open>\<rho> = 2\<close>, \<open>\<rho>V = (2, 4)\<close>, \<open>\<rho>E = 30\<close>, \<open>\<rho>Y = (1)\<close>), a gradient
  of the conserved state, and the mass-fraction gradient
  \<open>(\<nabla>(\<rho>Y) - Y \<nabla>\<rho>) / \<rho>\<close> as a concrete \<^verbatim>\<open>species_mass_fraction_gradient\<close>.
\<close>

definition example_species_state :: "real FluidState" where
  "example_species_state = make_fluid_state (ideal_gas (7/5) 1)
     (make_conserved 2 30 [2, 4] [1]) None"

definition example_grad_cv :: gradcv where
  "example_grad_cv = make_conserved [1, 0] [0, 1] [[1, 2], [3, 4]] [[1, 1]]"

definition example_species_mass_fraction_gradient :: "real ConservedVars \<Rightarrow> gradcv \<Rightarrow> vec list" where
  "example_species_mass_fraction_gradient c g =
     map2 (\<lambda>gs y. map (\<lambda>x. x / mass c) (vsub gs (smul (y / mass c) (mass g))))
          (species_mass g) (species_mass c)"

text \<open>A gas at rest with \<open>T = 400\<close> (\<open>\<rho> = 1\<close>, \<open>\<rho>E = 1000\<close>, \<open>\<gamma> = 7/5\<close>, \<open>R = 1\<close>).\<close>

definition example_hot_state :: "real FluidState" where
  "example_hot_state = make_fluid_state (ideal_gas (7/5) 1)
     (make_conserved 1 1000 [0, 0] []) None"

text \<open>
  Stand-ins for the imported \<^verbatim>\<open>viscous_flux\<close> and for a viscous numerical flux, to
  run the wall boundaries on concrete inputs.
\<close>

definition example_viscous_flux :: "real FluidState \<Rightarrow> gradcv \<Rightarrow> vec \<Rightarrow> gradcv" where
  "example_viscous_flux s g gt =
     \<lparr>mass = smul 0 gt, energy = gt,
      momentum = map (smul (mass (cv s))) (momentum g), species_mass = species_mass g\<rparr>"

definition example_inviscid_num_flux :: inviscid_num_flux_t where
  "example_inviscid_num_flux pair gm n = cv (exterior pair)"

definition example_viscous_num_flux :: viscous_num_flux_t where
  "example_viscous_num_flux gm n sp gp tp = cv (interior sp)"

definition example_grad_cv_no_species :: gradcv where
  "example_grad_cv_no_species = make_conserved [1, 0] [0, 1] [[1, 2], [3, 4]] []"

text \<open>
  A state of the ideal gas with \<open>\<gamma> = 3/2\<close> whose velocity along the normal \<open>(1, 0)\<close> equals
  its speed of sound: \<open>\<rho> = 1\<close>, \<open>\<rho>V = (3, 0)\<close>, \<open>\<rho>E = 33/2\<close>, so that \<open>V = (3, 0)\<close>, \<open>p = 6\<close>
  and \<open>c = sqrt (\<gamma> p / \<rho>) = 3\<close>. All these numbers, and those of every intermediate
  result, are doubles.
\<close>

definition example_sonic_state :: "real FluidState" where
  "example_sonic_state = make_fluid_state (ideal_gas (3/2) 1)
     (make_conserved 1 (33/2) [3, 0] []) None"

text \<open>
  A toy environment for the Euler operator: a state is a number and the mixture flag, its
  temperature is the number plus 100, projections are the identity, there is one interior
  interface, the interface states record whether they were given seeds, and fluxes are
  sums (an interface flux of seeded states is 1000 more).
\<close>

definition example_env ::
    "(int \<times> bool, int, int, unit, unit, int, int, int, int) euler_env" where
  "example_env =
     \<lparr>state_cv = fst,
      state_temperature = (\<lambda>s. fst s + 100),
      state_is_mixture = snd,
      project_cv = (\<lambda>a b x. x),
      project_temperature = (\<lambda>a b x. x),
      interior_trace_pairs_cv =
        (\<lambda>c. [(DOFDesc ''int_faces'' None, \<lparr>interior = c, exterior = c + 1\<rparr>)]),
      interior_trace_pairs_temperature =
        (\<lambda>t. [(DOFDesc ''int_faces'' None, \<lparr>interior = t, exterior = t + 2\<rparr>)]),
      project_fluid_state = (\<lambda>a b s g. s),
      make_fluid_state_trace_pairs =
        (\<lambda>cvp g seeds.
           map (\<lambda>(d, pr). (d, \<lparr>interior = (interior pr, seeds \<noteq> None),
                                 exterior = (exterior pr, seeds \<noteq> None)\<rparr>)) cvp),
      inviscid_flux = fst,
      inviscid_facial_flux =
        (\<lambda>g sp nf. fst (interior (snd sp)) + fst (exterior (snd sp))
                     + (if snd (interior (snd sp)) then 1000 else 0)),
      boundary_inviscid_divergence_flux = (\<lambda>b d g s t nf. b + fst s),
      div_operator = (\<lambda>a b vf f. vf + f)\<rparr>"
subsection \<open>Concrete inputs in double precision\<close>

text \<open>
  The ideal gas of the examples with the arithmetic of doubles, and two interior states
  of it with the same shape (two dimensions, one species) and different values:
  \<open>\<rho> = 1\<close>, \<open>\<rho>V = (3, 4)\<close>, \<open>\<rho>E = 20\<close>, \<open>\<rho>Y = (1)\<close> and
  \<open>\<rho> = 2\<close>, \<open>\<rho>V = (2, 0)\<close>, \<open>\<rho>E = 4\<close>, \<open>\<rho>Y = (1)\<close>, with \<open>\<gamma> = 3/2\<close> and \<open>R = 1\<close>.
\<close>

definition ideal_gas_double :: "double \<Rightarrow> double \<Rightarrow> double GasModel" where
  "ideal_gas_double g R =
     \<lparr>eos_temperature = (\<lambda>c seed. (g - 1) / R
          * (energy c - np_dot (momentum c) (momentum c) / (two * mass c)) / mass c),
      eos_pressure = (\<lambda>c t. (g - 1)
          * (energy c - np_dot (momentum c) (momentum c) / (two * mass c))),
      eos_speed_of_sound = (\<lambda>c t. dsqrt (g / mass c
          * ((g - 1) * (energy c - np_dot (momentum c) (momentum c) / (two * mass c))))),
      eos_gamma = (\<lambda>c t. g),
      eos_get_internal_energy = (\<lambda>t y. R * t / (g - 1)),
      eos_get_density = (\<lambda>p t y. p / (R * t)),
      eos_kinetic_energy = (\<lambda>c. np_dot (momentum c) (momentum c) / (two * mass c)),
      eos_mixture = False\<rparr>"

definition example_gas :: "double GasModel" where
  "example_gas = ideal_gas_double (Finite (3 / 2)) (Finite 1)"

definition example_double_state :: "double FluidState" where
  "example_double_state = make_fluid_state example_gas
     (make_conserved (Finite 1) (Finite 20) [Finite 3, Finite 4] [Finite 1]) None"

definition example_double_state_2 :: "double FluidState" where
  "example_double_state_2 = make_fluid_state example_gas
     (make_conserved (Finite 2) (Finite 4) [Finite 2, Finite 0] [Finite 1]) None"

text \<open>A state of the same shape with density zero.\<close>

definition example_vacuum_state :: "double FluidState" where
  "example_vacuum_state = make_fluid_state example_gas
     (make_conserved (Finite 0) (Finite 0) [Finite 0, Finite 0] [Finite 0]) None"

text \<open>
  The normal \<open>(0.6, 0.8)\<close>, that is, the doubles nearest to these two numbers; its dot
  product with itself is computed as 1. Two states with the momenta \<open>(0.1, 0.2)\<close> and
  \<open>(0.2, 1.1)\<close> (again the nearest doubles).
\<close>

definition oblique_normal :: "double list" where
  "oblique_normal = [Finite (5404319552844595 / 9007199254740992),
                     Finite (3602879701896397 / 4503599627370496)]"

definition example_oblique_state :: "double FluidState" where
  "example_oblique_state = make_fluid_state example_gas
     (make_conserved (Finite 1) (Finite 1)
        [Finite (3602879701896397 / 36028797018963968),
         Finite (3602879701896397 / 18014398509481984)] []) None"

definition example_oblique_state_2 :: "double FluidState" where
  "example_oblique_state_2 = make_fluid_state example_gas
     (make_conserved (Finite 1) (Finite 1)
        [Finite (3602879701896397 / 18014398509481984),
         Finite (2476979795053773 / 2251799813685248)] []) None"

section \<open>Properties\<close>

subsection \<open>Vector algebra\<close>

text \<open>Over the real numbers the literals are the numbers and the order of the sum is immaterial.\<close>

lemma two_real [simp]: "(two::real) = 2"
  by (simp add: two_def)

lemma half_real [simp]: "(half::real) = 1 / 2"
  by (simp add: half_def)

lemma foldl_add_real: "foldl (+) (p::real) ps = p + sum_list ps"
  by (induction ps arbitrary: p) simp_all

lemma np_dot_real: "np_dot (a::real list) b = sum_list (map2 (*) a b)"
  by (simp add: np_dot_def foldl_add_real split: list.split)

lemma np_dot_Nil [simp]: "np_dot [] b = 0" "np_dot a [] = 0"
  by (simp_all add: np_dot_def)

lemma np_dot_Cons [simp]: "np_dot (x # a) (y # b) = (x::real) * y + np_dot a b"
  by (simp add: np_dot_real)

lemma np_dot_smul_left: "np_dot (smul c a) n = (c::real) * np_dot a n"
proof (induction a arbitrary: n)
  case Nil
  show ?case by (simp add: smul_def)
next
  case (Cons x a)
  show ?case
  proof (cases n)
    case Nil
    then show ?thesis by simp
  next
    case (Cons y n')
    have "np_dot (smul c a) n' = c * np_dot a n'" by (rule Cons.IH)
    then show ?thesis using Cons by (simp add: smul_def algebra_simps)
  qed
qed

lemma np_dot_vsub_left:
  "length a = length b \<Longrightarrow> np_dot (vsub a b) n = np_dot a n - (np_dot b n :: real)"
proof (induction a b arbitrary: n rule: list_induct2)
  case Nil
  show ?case by (simp add: vsub_def)
next
  case (Cons x a y b)
  show ?case
  proof (cases n)
    case Nil
    then show ?thesis by simp
  next
    case (Cons z n')
    have "np_dot (vsub a b) n' = np_dot a n' - np_dot b n'" by (rule Cons.IH)
    then show ?thesis using Cons by (simp add: vsub_def algebra_simps)
  qed
qed

lemma length_smul [simp]: "length (smul c v) = length v"
  by (simp add: smul_def)

lemma length_vsub [simp]: "length (vsub a b) = min (length a) (length b)"
  by (simp add: vsub_def)

lemma smul_smul: "smul a (smul b v) = smul ((a::real) * b) v"
  by (simp add: smul_def)

lemma vsub_smul_smul:
  "length m = length n \<Longrightarrow> vsub (vsub m (smul a n)) (smul b n) = vsub m (smul ((a::real) + b) n)"
  by (induction m n rule: list_induct2) (simp_all add: vsub_def smul_def algebra_simps)

lemma vsub_smul_zero: "length m = length n \<Longrightarrow> vsub m (smul 0 n) = (m::real list)"
  by (induction m n rule: list_induct2) (simp_all add: vsub_def smul_def)

text \<open>The reflected momentum \<open>m - 2 (m \<cdot> n) n\<close>, for a unit normal of the same dimension.\<close>

lemma reflect_dot:
  assumes "length n = length m" and "np_dot n n = (1::real)"
  shows "np_dot (vsub m (smul (2 * np_dot m n) n)) n = - np_dot m n"
  using assms by (simp add: np_dot_vsub_left np_dot_smul_left)

lemma reflect_tangential:
  assumes "length n = length m" and "np_dot n n = (1::real)"
  shows "vsub (vsub m (smul (2 * np_dot m n) n))
              (smul (np_dot (vsub m (smul (2 * np_dot m n) n)) n) n)
         = vsub m (smul (np_dot m n) n)"
proof -
  have "vsub (vsub m (smul (2 * np_dot m n) n)) (smul (- np_dot m n) n)
        = vsub m (smul (2 * np_dot m n + - np_dot m n) n)"
    using assms(1) by (simp add: vsub_smul_smul)
  then show ?thesis using assms by (simp add: reflect_dot)
qed

lemma reflect_twice:
  assumes "length n = length m" and "np_dot n n = (1::real)"
  shows "vsub (vsub m (smul (2 * np_dot m n) n))
              (smul (2 * np_dot (vsub m (smul (2 * np_dot m n) n)) n) n) = m"
proof -
  have "vsub (vsub m (smul (2 * np_dot m n) n)) (smul (2 * - np_dot m n) n)
        = vsub m (smul (2 * np_dot m n + 2 * - np_dot m n) n)"
    using assms(1) by (simp only: vsub_smul_smul)
  then show ?thesis using assms by (simp add: reflect_dot vsub_smul_zero)
qed

lemma smul_zero_replicate: "smul 0 v = replicate (length v) (0::real)"
  by (induction v) (simp_all add: smul_def)

lemma length_velocity [simp]: "length (velocity s) = dim s"
  by (simp add: velocity_def dim_def)

subsection \<open>Double precision\<close>

lemma pow2_powr: "pow2 k = 2 powr (of_int k)"
  by (simp add: pow2_def powr_real_of_int field_simps)

lemma pow2_pos [simp]: "0 < pow2 k"
  by (simp add: pow2_powr)

lemma pow2_add: "pow2 (a + b) = pow2 a * pow2 b"
  by (simp add: pow2_powr powr_add)

lemma pow2_Suc: "pow2 (a + 1) = 2 * pow2 a"
  using pow2_add [of a 1] by (simp add: pow2_def)

lemma expo_eqI: "pow2 e \<le> \<bar>x\<bar> \<Longrightarrow> \<bar>x\<bar> < pow2 (e + 1) \<Longrightarrow> expo x = e"
proof -
  assume a: "pow2 e \<le> \<bar>x\<bar>" and b: "\<bar>x\<bar> < pow2 (e + 1)"
  have "0 < \<bar>x\<bar>" using a pow2_pos [of e] by linarith
  then show ?thesis
    unfolding expo_def using a b
    by (subst floor_log_eq_powr_iff) (simp_all add: pow2_powr)
qed

lemma ulp_pos [simp]: "0 < ulp x"
  by (simp add: ulp_def)

lemma round_half_even_of_int [simp]: "round_half_even (of_int k) = k"
  by (simp add: round_half_even_def)

lemma fl_is_double: "is_double x \<Longrightarrow> fl x = x"
proof (cases "x = 0")
  case True
  then show ?thesis by (simp add: fl_def)
next
  case False
  assume "is_double x"
  then obtain k where k: "x / ulp x = of_int k"
    using False by (auto simp: is_double_def Ints_def)
  have "ulp x \<noteq> 0" using ulp_pos [of x] by linarith
  then have "x = ulp x * of_int k" using k by (simp add: field_simps)
  then show ?thesis using False k by (simp add: fl_def)
qed

lemma double_overflow_pos [simp]: "0 < double_overflow"
  by (simp add: double_overflow_def)

lemma round_to_double_is_double: "is_double x \<Longrightarrow> round_to_double x = Finite x"
proof -
  assume d: "is_double x"
  then have "\<not> double_overflow \<le> \<bar>x\<bar>" by (simp add: is_double_def)
  then show ?thesis using d by (simp add: round_to_double_def fl_is_double)
qed

lemma is_double_zero [simp]: "is_double 0"
  by (simp add: is_double_def)

lemma expo_uminus [simp]: "expo (- x) = expo x"
  by (simp add: expo_def)

lemma ulp_uminus [simp]: "ulp (- x) = ulp x"
  by (simp add: ulp_def)

lemma is_double_uminus: "is_double x \<Longrightarrow> is_double (- x)"
  by (auto simp: is_double_def)

lemma expo_double: "x \<noteq> 0 \<Longrightarrow> expo (2 * x) = expo x + 1"
proof -
  assume "x \<noteq> 0"
  then have "log 2 \<bar>2 * x\<bar> = 1 + log 2 \<bar>x\<bar>"
    by (simp add: abs_mult log_mult)
  then show ?thesis by (simp add: expo_def)
qed

lemma is_double_double:
  assumes "is_double x" and "\<bar>2 * x\<bar> < double_overflow"
  shows "is_double (2 * x)"
proof (cases "x = 0")
  case True
  then show ?thesis by simp
next
  case False
  obtain k where k: "x / ulp x = of_int k"
    using assms(1) False by (auto simp: is_double_def Ints_def)
  have e: "expo (2 * x) = expo x + 1" using False by (rule expo_double)
  show ?thesis
  proof (cases "expo x + 1 \<le> - 1022")
    case True
    then have "ulp (2 * x) = ulp x" by (simp add: ulp_def e max_def)
    then have "2 * x / ulp (2 * x) = of_int (2 * k)" using k by simp
    then have "2 * x / ulp (2 * x) \<in> \<int>" by (simp only: Ints_of_int)
    then show ?thesis using assms(2) by (simp add: is_double_def)
  next
    case False
    then have "max (expo x + 1) (- 1022) - 52 = (max (expo x) (- 1022) - 52) + 1"
      by (simp add: max_def)
    moreover have "pow2 (max (expo x) (- 1022) - 52 + 1) = 2 * pow2 (max (expo x) (- 1022) - 52)"
      by (rule pow2_Suc)
    ultimately have "ulp (2 * x) = 2 * ulp x"
      by (simp add: ulp_def e)
    then have "2 * x / ulp (2 * x) = of_int k" using k by simp
    then have "2 * x / ulp (2 * x) \<in> \<int>" by (simp only: Ints_of_int)
    then show ?thesis using assms(2) by (simp add: is_double_def)
  qed
qed


lemma round_to_double_eval:
  assumes "pow2 e \<le> \<bar>x\<bar>" and "\<bar>x\<bar> < pow2 (e + 1)"
    and "u = pow2 (max e (- 1022) - 52)"
    and "round_half_even (x / u) = k"
    and "r = u * of_int k"
    and "\<bar>r\<bar> < double_overflow"
  shows "round_to_double x = Finite r"
proof -
  have e: "expo x = e" using assms(1,2) by (rule expo_eqI)
  have "0 < \<bar>x\<bar>" using assms(1) pow2_pos [of e] by linarith
  then have "x \<noteq> 0" by simp
  then have "fl x = r" by (simp add: fl_def ulp_def e assms(3) [symmetric] assms(4,5))
  then show ?thesis using assms(6) by (simp add: round_to_double_def)
qed



text \<open>Operations whose exact result is a double return it.\<close>

lemma finite_doubleE:
  assumes "finite_double d"
  obtains x where "d = Finite x" and "is_double x"
  using assms by (cases d) (simp_all add: finite_double_def)

lemma finite_double_Finite [simp]: "finite_double (Finite x) = is_double x"
  by (simp add: finite_double_def)

lemma double_mult_zero [simp]: "Finite a * 0 = (0::double)" "0 * Finite a = (0::double)"
  by (simp_all add: times_double_def zero_double_def round_to_double_is_double)

lemma double_mult_one:
  "is_double a \<Longrightarrow> Finite a * 1 = Finite a" "is_double a \<Longrightarrow> 1 * Finite a = Finite a"
  by (simp_all add: times_double_def one_double_def round_to_double_is_double)

lemma double_mult_minus_one:
  "is_double a \<Longrightarrow> Finite a * (- 1) = Finite (- a)"
  "is_double a \<Longrightarrow> (- 1) * Finite a = Finite (- a)"
  by (simp_all add: times_double_def one_double_def uminus_double_def
      round_to_double_is_double is_double_uminus)

lemma double_add_zero:
  "is_double a \<Longrightarrow> Finite a + 0 = Finite a" "is_double a \<Longrightarrow> 0 + Finite a = Finite a"
  by (simp_all add: plus_double_def zero_double_def round_to_double_is_double)

lemma double_zero_add_zero [simp]: "(0::double) + 0 = 0"
  by (simp add: plus_double_def zero_double_def round_to_double_is_double)

lemma double_diff_zero: "is_double a \<Longrightarrow> Finite a - 0 = Finite a"
  by (simp add: minus_double_def zero_double_def round_to_double_is_double)

lemma double_diff_self [simp]: "Finite a - Finite a = 0"
  by (simp add: minus_double_def zero_double_def round_to_double_is_double)

lemma double_two: "(two::double) = Finite 2"
proof -
  have "is_double 2"
    unfolding is_double_def
    by (simp add: ulp_def expo_eqI [where e = 1] pow2_def double_overflow_def)
  then have "round_to_double 2 = Finite 2" by (rule round_to_double_is_double)
  then show ?thesis by (simp add: two_def plus_double_def one_double_def)
qed

lemma double_two_mult:
  "is_double a \<Longrightarrow> \<bar>2 * a\<bar> < double_overflow \<Longrightarrow> two * Finite a = Finite (2 * a)"
  by (simp add: double_two times_double_def round_to_double_is_double is_double_double)

text \<open>Vectors of finite doubles and an axis-aligned normal.\<close>

lemma foldl_add_zeros:
  "finite_double a \<Longrightarrow> foldl (+) a (replicate j (0::double)) = a"
proof (induction j)
  case 0
  show ?case by simp
next
  case (Suc j)
  from Suc.prems obtain x where x: "a = Finite x" "is_double x" by (rule finite_doubleE)
  have "a + 0 = a" using x by (simp add: double_add_zero)
  then show ?case using Suc by simp
qed

lemma foldl_add_unit_list:
  "finite_double v \<Longrightarrow> k < n \<Longrightarrow> foldl (+) 0 ((replicate n (0::double))[k := v]) = v"
proof (induction n arbitrary: k)
  case 0
  then show ?case by simp
next
  case (Suc n)
  from Suc.prems(1) obtain x where x: "v = Finite x" "is_double x" by (rule finite_doubleE)
  show ?case
  proof (cases k)
    case 0
    have "0 + v = v" using x by (simp add: double_add_zero)
    then show ?thesis using 0 Suc.prems(1) by (simp add: foldl_add_zeros)
  next
    case (Suc k')
    then have "k' < n" using Suc.prems(2) by simp
    then have "foldl (+) 0 ((replicate n (0::double))[k' := v]) = v"
      using Suc.prems(1) by (intro Suc.IH)
    then show ?thesis using Suc by simp
  qed
qed

lemma sum_unit_list:
  assumes "finite_double v" and "k < n"
  shows "(case (replicate n (0::double))[k := v] of [] \<Rightarrow> 0 | p # ps \<Rightarrow> foldl (+) p ps) = v"
proof (cases n)
  case 0
  then show ?thesis using assms by simp
next
  case (Suc n')
  show ?thesis
  proof (cases k)
    case 0
    then show ?thesis using Suc assms by (simp add: foldl_add_zeros)
  next
    case (Suc k')
    then have "k' < n'" using assms(2) \<open>n = Suc n'\<close> by simp
    then have "foldl (+) 0 ((replicate n' (0::double))[k' := v]) = v"
      using assms(1) by (rule foldl_add_unit_list [rotated])
    then show ?thesis using Suc \<open>n = Suc n'\<close> by simp
  qed
qed

lemma list_all_nth: "list_all P xs \<Longrightarrow> i < length xs \<Longrightarrow> P (xs ! i)"
  by (simp add: list_all_length)

lemma products_axis:
  assumes "list_all finite_double m" and "k < length m"
  shows "map2 (*) m (axis_normal (length m) k sg)
         = (replicate (length m) 0)[k := m ! k * sg]"
proof (rule nth_equalityI)
  show "length (map2 (*) m (axis_normal (length m) k sg))
        = length ((replicate (length m) (0::double))[k := m ! k * sg])"
    by (simp add: axis_normal_def)
next
  fix i assume "i < length (map2 (*) m (axis_normal (length m) k sg))"
  then have i: "i < length m" by (simp add: axis_normal_def)
  then obtain x where x: "m ! i = Finite x"
    using assms(1) by (auto dest!: list_all_nth [where i = i] elim: finite_doubleE)
  show "map2 (*) m (axis_normal (length m) k sg) ! i
        = (replicate (length m) 0)[k := m ! k * sg] ! i"
    using i x by (cases "i = k") (simp_all add: axis_normal_def)
qed

lemma mult_sign_finite:
  assumes "finite_double d" and "sg = 1 \<or> sg = - 1"
  shows "finite_double (d * sg)"
proof -
  from assms(1) obtain x where x: "d = Finite x" "is_double x" by (rule finite_doubleE)
  show ?thesis
    using assms(2) x by (auto simp: double_mult_one double_mult_minus_one is_double_uminus)
qed

lemma np_dot_axis:
  assumes "list_all finite_double m" and "k < length m" and "sg = 1 \<or> sg = - 1"
  shows "np_dot m (axis_normal (length m) k sg) = m ! k * sg"
proof -
  have "finite_double (m ! k)" using assms(1,2) by (rule list_all_nth)
  then have "finite_double (m ! k * sg)" using assms(3) by (rule mult_sign_finite)
  then show ?thesis
    using assms(2) by (simp add: np_dot_def products_axis [OF assms(1,2)] sum_unit_list)
qed

lemma smul_axis:
  "c * 0 = (0::double) \<Longrightarrow> smul c (axis_normal n k sg) = axis_normal n k (c * sg)"
  by (simp add: smul_def axis_normal_def map_update)

lemma vsub_unit_list:
  assumes "list_all finite_double m"
  shows "vsub m ((replicate (length m) 0)[k := w]) = m[k := m ! k - w]"
proof (rule nth_equalityI)
  show "length (vsub m ((replicate (length m) 0)[k := w])) = length (m[k := m ! k - w])"
    by (simp add: vsub_def)
next
  fix i assume "i < length (vsub m ((replicate (length m) 0)[k := w]))"
  then have i: "i < length m" by (simp add: vsub_def)
  then obtain x where x: "m ! i = Finite x" "is_double x"
    using assms by (auto dest!: list_all_nth [where i = i] elim: finite_doubleE)
  show "vsub m ((replicate (length m) 0)[k := w]) ! i = m[k := m ! k - w] ! i"
    using i x by (cases "i = k") (simp_all add: vsub_def double_diff_zero)
qed

lemma reflect_component:
  assumes "is_double a" and "\<bar>2 * a\<bar> < double_overflow" and "sg = 1 \<or> sg = - 1"
  shows "Finite a - (two * (Finite a * sg)) * sg = Finite (- a)"
    and "Finite a - two * ((Finite a * sg) * sg) = Finite (- a)"
    and "Finite a - (Finite a * sg) * sg = 0"
proof -
  have n: "is_double (- a)" using assms(1) by (rule is_double_uminus)
  have d: "is_double (2 * a)" using assms(1,2) by (rule is_double_double)
  have dn: "is_double (- (2 * a))" using d by (rule is_double_uminus)
  have dn': "is_double (2 * - a)" using dn by simp
  have s: "Finite a - Finite (2 * a) = Finite (- a)"
    using n by (simp add: minus_double_def round_to_double_is_double)
  show "Finite a - (two * (Finite a * sg)) * sg = Finite (- a)"
    using assms n d dn dn' s
    by (auto simp: double_mult_one double_mult_minus_one double_two_mult)
  show "Finite a - two * ((Finite a * sg) * sg) = Finite (- a)"
    using assms n d dn dn' s
    by (auto simp: double_mult_one double_mult_minus_one double_two_mult)
  show "Finite a - (Finite a * sg) * sg = 0"
    using assms n
    by (auto simp: double_mult_one double_mult_minus_one)
qed

subsection \<open>Reflection at an axis-aligned normal, in doubles\<close>

lemma is_double_eval:
  assumes "pow2 e \<le> \<bar>x\<bar>" and "\<bar>x\<bar> < pow2 (e + 1)"
    and "u = pow2 (max e (- 1022) - 52)" and "x = u * of_int k"
    and "\<bar>x\<bar> < double_overflow"
  shows "is_double x"
proof -
  have "expo x = e" using assms(1,2) by (rule expo_eqI)
  then have "ulp x = u" by (simp add: ulp_def assms(3))
  moreover have "0 < u" by (simp add: assms(3))
  ultimately have "x / ulp x = of_int k" using assms(4) by simp
  then show ?thesis using assms(5) by (simp add: is_double_def)
qed

lemma ddiv_Finite: "b \<noteq> 0 \<Longrightarrow> Finite a / Finite b = round_to_double (a / b)"
  by (simp add: divide_double_def)

lemma np_dot2: "np_dot [a, b] [c, d] = a * c + b * d"
  by (simp add: np_dot_def)

lemma smul2: "smul c [a, b] = [c * a, c * b]"
  by (simp add: smul_def)

lemma vsub2: "vsub [a, b] [c, d] = [a - c, b - d]"
  by (simp add: vsub_def)

lemma double_mult_zero_any: "finite_double c \<Longrightarrow> c * 0 = (0::double)"
  by (erule finite_doubleE) simp

lemma vsub_axis:
  "list_all finite_double m
   \<Longrightarrow> vsub m (axis_normal (length m) k w) = m[k := m ! k - w]"
  by (simp add: axis_normal_def vsub_unit_list)

lemma reflect_axis:
  assumes m: "list_all finite_double m" and k: "k < length m" and sg: "sg = 1 \<or> sg = - 1"
    and o: "no_overflow_doubling (m ! k)"
  shows "vsub m (smul (two * np_dot m (axis_normal (length m) k sg))
                      (axis_normal (length m) k sg)) = m[k := - (m ! k)]"
    and "vsub m (smul two (smul (np_dot m (axis_normal (length m) k sg))
                                (axis_normal (length m) k sg))) = m[k := - (m ! k)]"
    and "tangential m (axis_normal (length m) k sg) = m[k := 0]"
proof -
  have "finite_double (m ! k)" using m k by (rule list_all_nth)
  then obtain a where a: "m ! k = Finite a" "is_double a" by (rule finite_doubleE)
  have b: "\<bar>2 * a\<bar> < double_overflow"
    using o by (simp add: no_overflow_doubling_def a)
  note r = reflect_component [OF a(2) b sg]
  have d: "np_dot m (axis_normal (length m) k sg) = Finite a * sg"
    using np_dot_axis [OF m k sg] by (simp add: a)
  have "finite_double (Finite a * sg)"
    using a(2) sg by (auto simp: double_mult_one double_mult_minus_one is_double_uminus)
  then obtain c where c: "Finite a * sg = Finite c" "is_double c" by (rule finite_doubleE)
  have c2: "\<bar>2 * c\<bar> < double_overflow"
    using a(2) sg b c(1) by (auto simp: double_mult_one double_mult_minus_one)
  have t: "two * Finite c = Finite (2 * c)"
    using c(2) c2 by (rule double_two_mult)
  have n: "- Finite a = Finite (- a)" by (simp add: uminus_double_def)
  have z1: "(two * (Finite a * sg)) * 0 = 0" by (simp add: c(1) t)
  have z2: "(Finite a * sg) * 0 = 0" by (simp add: c(1))
  have z3: "two * (0::double) = 0" by (simp add: double_two)
  have "vsub m (smul (two * np_dot m (axis_normal (length m) k sg))
                      (axis_normal (length m) k sg))
        = vsub m (axis_normal (length m) k ((two * (Finite a * sg)) * sg))"
    by (simp only: d smul_axis [OF z1])
  also have "\<dots> = m[k := m ! k - (two * (Finite a * sg)) * sg]"
    using m by (rule vsub_axis)
  also have "\<dots> = m[k := - (m ! k)]"
    by (simp only: a(1) r(1) n)
  finally show "vsub m (smul (two * np_dot m (axis_normal (length m) k sg))
                      (axis_normal (length m) k sg)) = m[k := - (m ! k)]" .
  have "vsub m (smul two (smul (np_dot m (axis_normal (length m) k sg))
                                (axis_normal (length m) k sg)))
        = vsub m (axis_normal (length m) k (two * ((Finite a * sg) * sg)))"
    by (simp only: d smul_axis [OF z2] smul_axis [OF z3])
  also have "\<dots> = m[k := m ! k - two * ((Finite a * sg) * sg)]"
    using m by (rule vsub_axis)
  also have "\<dots> = m[k := - (m ! k)]"
    by (simp only: a(1) r(2) n)
  finally show "vsub m (smul two (smul (np_dot m (axis_normal (length m) k sg))
                                (axis_normal (length m) k sg))) = m[k := - (m ! k)]" .
  have "tangential m (axis_normal (length m) k sg)
        = vsub m (axis_normal (length m) k ((Finite a * sg) * sg))"
    by (simp only: tangential_def d smul_axis [OF z2])
  also have "\<dots> = m[k := m ! k - (Finite a * sg) * sg]"
    using m by (rule vsub_axis)
  also have "\<dots> = m[k := 0]"
    by (simp only: a(1) r(3))
  finally show "tangential m (axis_normal (length m) k sg) = m[k := 0]" .
qed

lemma flipped_finite:
  assumes "list_all finite_double m" and "k < length m"
  shows "list_all finite_double (m[k := - (m ! k)])"
proof -
  have "finite_double (m ! k)" using assms by (rule list_all_nth)
  then obtain a where a: "m ! k = Finite a" "is_double a" by (rule finite_doubleE)
  have "finite_double (- (m ! k))"
    by (simp add: a uminus_double_def is_double_uminus)
  then show ?thesis
    using assms by (auto simp: list_all_length nth_list_update)
qed

lemma flipped_no_overflow:
  "no_overflow_doubling d \<Longrightarrow> no_overflow_doubling (- d)"
  by (cases d) (simp_all add: no_overflow_doubling_def uminus_double_def)

lemma flip_twice:
  "k < length m \<Longrightarrow> (m[k := - (m ! k)])[k := - ((m[k := - (m ! k)]) ! k)] = (m::double list)"
proof -
  assume k: "k < length m"
  have dd: "- (- d) = d" for d :: double
    by (cases d) (simp_all add: uminus_double_def)
  show ?thesis using k by (simp add: dd)
qed

lemma np_dot_flipped:
  assumes m: "list_all finite_double m" and k: "k < length m" and sg: "sg = 1 \<or> sg = - 1"
  shows "np_dot (m[k := - (m ! k)]) (axis_normal (length m) k sg)
         = - np_dot m (axis_normal (length m) k sg)"
proof -
  have "finite_double (m ! k)" using m k by (rule list_all_nth)
  then obtain a where a: "m ! k = Finite a" "is_double a" by (rule finite_doubleE)
  have na: "is_double (- a)" using a(2) by (rule is_double_uminus)
  have "np_dot (m[k := - (m ! k)]) (axis_normal (length (m[k := - (m ! k)])) k sg)
        = (m[k := - (m ! k)]) ! k * sg"
    using flipped_finite [OF m k] k sg by (intro np_dot_axis) simp_all
  then have "np_dot (m[k := - (m ! k)]) (axis_normal (length m) k sg) = - (m ! k) * sg"
    using k by simp
  also have "\<dots> = - (m ! k * sg)"
  proof -
    have u: "- Finite a = Finite (- a)" by (simp add: uminus_double_def)
    have v: "- Finite (- a) = Finite a" by (simp add: uminus_double_def)
    have "Finite (- a) * 1 = - (Finite a * 1)"
      using a(2) na by (simp add: double_mult_one u)
    moreover have "Finite (- a) * (- 1) = - (Finite a * (- 1))"
      using a(2) na double_mult_minus_one(1) [of "- a"]
      by (simp add: double_mult_minus_one v)
    ultimately show ?thesis using sg by (auto simp: a(1) u)
  qed
  also have "\<dots> = - np_dot m (axis_normal (length m) k sg)"
    by (simp add: np_dot_axis [OF m k sg])
  finally show ?thesis .
qed

lemma tangential_flipped:
  assumes m: "list_all finite_double m" and k: "k < length m" and sg: "sg = 1 \<or> sg = - 1"
    and o: "no_overflow_doubling (m ! k)"
  shows "tangential (m[k := - (m ! k)]) (axis_normal (length m) k sg)
         = tangential m (axis_normal (length m) k sg)"
proof -
  have o': "no_overflow_doubling ((m[k := - (m ! k)]) ! k)"
    using o k by (simp add: flipped_no_overflow)
  have "tangential (m[k := - (m ! k)]) (axis_normal (length (m[k := - (m ! k)])) k sg)
        = (m[k := - (m ! k)])[k := 0]"
    using flipped_finite [OF m k] k sg o' by (intro reflect_axis(3)) simp_all
  then show ?thesis
    by (simp add: reflect_axis(3) [OF m k sg o])
qed

subsection \<open>The conserved part of a built state\<close>

lemma cv_make_fluid_state [simp]: "cv (make_fluid_state gm c seed) = c"
  by (simp add: make_fluid_state_def Let_def)

lemma cv_example_state:
  "cv example_state = \<lparr>mass = 1, energy = 20, momentum = [3, 4], species_mass = []\<rparr>"
  by (simp add: example_state_def make_conserved_def)

subsection \<open>Reflection at slip and symmetry walls\<close>

lemma adiabatic_slip_state_cv:
  "cv (adiabatic_slip_state gm nhat s)
   = \<lparr>mass = mass (cv s), energy = energy (cv s),
      momentum = vsub (momentum (cv s)) (smul (two * np_dot (momentum (cv s)) nhat) nhat),
      species_mass = species_mass (cv s)\<rparr>"
  by (simp add: adiabatic_slip_state_def Let_def make_conserved_def)

lemma SymmetryBoundary_adiabatic_wall_state_for_advection_cv:
  "cv (SymmetryBoundary_adiabatic_wall_state_for_advection gm nhat s)
   = \<lparr>mass = mass (cv s), energy = energy (cv s),
      momentum = vsub (momentum (cv s))
                   (smul two (smul (np_dot (momentum (cv s)) nhat) nhat)),
      species_mass = species_mass (cv s)\<rparr>"
  by (simp add: SymmetryBoundary_adiabatic_wall_state_for_advection_def Let_def
      make_conserved_def momentum_density_def mass_density_def energy_density_def
      species_mass_density_def)

lemma is_double_three: "is_double 3"
  by (rule is_double_eval [where e = 1 and u = "1 / 2 ^ 51" and k = 6755399441055744])
     (simp_all add: pow2_def double_overflow_def)

lemma is_double_four: "is_double 4"
  by (rule is_double_eval [where e = 2 and u = "1 / 2 ^ 50" and k = 4503599627370496])
     (simp_all add: pow2_def double_overflow_def)

text \<open>
  Over the real numbers the reflection is exact for every unit normal: the exterior
  momentum has the opposite normal component and the same tangential part, and reflecting
  twice gives back the momentum.
\<close>

lemma reflection_over_reals:
  fixes gm :: "real GasModel"
  assumes "length nhat = length (momentum (cv s))" and "np_dot nhat nhat = 1"
  shows "np_dot (momentum (cv (adiabatic_slip_state gm nhat s))) nhat
           = - np_dot (momentum (cv s)) nhat"
    and "tangential (momentum (cv (adiabatic_slip_state gm nhat s))) nhat
           = tangential (momentum (cv s)) nhat"
    and "momentum (cv (SymmetryBoundary_adiabatic_wall_state_for_advection gm nhat s))
           = momentum (cv (adiabatic_slip_state gm nhat s))"
    and "cv (adiabatic_slip_state gm nhat (adiabatic_slip_state gm nhat s)) = cv s"
proof -
  let ?m = "momentum (cv s)"
  let ?r = "vsub ?m (smul (2 * np_dot ?m nhat) nhat)"
  have slip: "momentum (cv (adiabatic_slip_state gm nhat s)) = ?r"
    by (simp add: adiabatic_slip_state_cv)
  show "np_dot (momentum (cv (adiabatic_slip_state gm nhat s))) nhat = - np_dot ?m nhat"
    unfolding slip using assms by (rule reflect_dot)
  show "tangential (momentum (cv (adiabatic_slip_state gm nhat s))) nhat
           = tangential ?m nhat"
    unfolding slip tangential_def using assms by (rule reflect_tangential)
  show "momentum (cv (SymmetryBoundary_adiabatic_wall_state_for_advection gm nhat s))
           = momentum (cv (adiabatic_slip_state gm nhat s))"
    by (simp add: SymmetryBoundary_adiabatic_wall_state_for_advection_cv
        adiabatic_slip_state_cv smul_smul)
  have again: "vsub ?r (smul (2 * np_dot ?r nhat) nhat) = ?m"
    using assms by (rule reflect_twice)
  show "cv (adiabatic_slip_state gm nhat (adiabatic_slip_state gm nhat s)) = cv s"
    unfolding adiabatic_slip_state_cv [of gm nhat "adiabatic_slip_state gm nhat s"]
    by (simp add: slip again adiabatic_slip_state_cv)
qed




subsection \<open>The slip construction applied twice\<close>




subsection \<open>The gradient of the conserved state at a wall\<close>

lemma smul_one [simp]: "smul 1 v = (v::real list)"
  by (induction v) (simp_all add: smul_def)

lemma map_smul_one [simp]: "map (smul 1) M = (M::real list list)"
  by (induction M) simp_all

lemma grad_species_mass_loop_returns:
  assumes "\<And>i. i \<in> set idx \<Longrightarrow> i < n" and "length gyp = n" and "length y = n"
    and "length acc = n"
  shows "\<exists>r. grad_species_mass_loop rho y gm gyp idx acc = Inr r"
  using assms
proof (induction idx arbitrary: acc)
  case Nil
  show ?case by simp
next
  case (Cons i rest)
  have i: "i < n" using Cons.prems(1) by simp
  have "\<exists>r. grad_species_mass_loop rho y gm gyp rest
               (acc[i := vadd (smul rho (gyp ! i)) (smul (y ! i) gm)]) = Inr r"
    using Cons.prems by (intro Cons.IH) simp_all
  then show ?case using i Cons.prems by simp
qed

lemma length_msub_outer:
  "length (msub gy (np_outer (matvec gy n) n)) = length gy"
  by (simp add: msub_def np_outer_def matvec_def)

lemma wall_grad_cv_bc_frame:
  "wall_grad_cv_bc smfg s g n = Inr g'
   \<Longrightarrow> mass g' = mass g \<and> energy g' = energy g \<and> momentum g' = momentum g"
  by (auto simp: wall_grad_cv_bc_def make_conserved_def split: sum.splits)

lemma wall_grad_cv_bc_no_species:
  "nspecies s = 0 \<Longrightarrow> wall_grad_cv_bc smfg s g n = Inr g"
  by (simp add: wall_grad_cv_bc_def make_conserved_def)

lemma wall_grad_cv_bc_returns:
  assumes "length (smfg (cv s) g) = nspecies s"
  shows "\<exists>g'. wall_grad_cv_bc smfg s g n = Inr g'"
proof (cases "nspecies s = 0")
  case True
  then show ?thesis by (simp add: wall_grad_cv_bc_no_species)
next
  case False
  let ?gy = "smfg (cv s) g"
  let ?gyp = "msub ?gy (np_outer (matvec ?gy n) n)"
  have "\<exists>r. grad_species_mass_loop (mass_density s) (species_mass_fractions s) (mass g) ?gyp
               [0 ..< nspecies s] (map (smul 0) ?gyp) = Inr r"
  proof (rule grad_species_mass_loop_returns)
    show "\<And>i. i \<in> set [0 ..< nspecies s] \<Longrightarrow> i < nspecies s" by simp
    show "length ?gyp = nspecies s" using assms by (simp add: length_msub_outer)
    show "length (species_mass_fractions s) = nspecies s"
      by (simp add: species_mass_fractions_def nspecies_def)
    show "length (map (smul 0) ?gyp) = nspecies s" using assms by (simp add: length_msub_outer)
  qed
  then show ?thesis using False by (auto simp: wall_grad_cv_bc_def Let_def)
qed

text \<open>
  C10. For the \<^verbatim>\<open>grad_cv_bc\<close> of IsothermalWallBoundary, AdiabaticNoslipWallBoundary
  and SymmetryBoundary: whatever gradient is returned has the mass, energy and momentum
  components of \<^verbatim>\<open>grad_cv_minus\<close>; with no species the result is \<^verbatim>\<open>grad_cv_minus\<close>
  itself; and a gradient is returned (no exception) whenever the mass-fraction gradient
  has one row per species.
\<close>

theorem grad_cv_bc_frame:
  "((case IsothermalWallBoundary_grad_cv_bc smfg s g n of
       Inl e \<Rightarrow> True
     | Inr g' \<Rightarrow> mass g' = mass g \<and> energy g' = energy g \<and> momentum g' = momentum g)
    \<and> (nspecies s = 0 \<longrightarrow> IsothermalWallBoundary_grad_cv_bc smfg s g n = Inr g)
    \<and> (length (smfg (cv s) g) = nspecies s
        \<longrightarrow> \<not> isl (IsothermalWallBoundary_grad_cv_bc smfg s g n)))
   \<and> ((case AdiabaticNoslipWallBoundary_grad_cv_bc smfg s g n of
       Inl e \<Rightarrow> True
     | Inr g' \<Rightarrow> mass g' = mass g \<and> energy g' = energy g \<and> momentum g' = momentum g)
    \<and> (nspecies s = 0 \<longrightarrow> AdiabaticNoslipWallBoundary_grad_cv_bc smfg s g n = Inr g)
    \<and> (length (smfg (cv s) g) = nspecies s
        \<longrightarrow> \<not> isl (AdiabaticNoslipWallBoundary_grad_cv_bc smfg s g n)))
   \<and> ((case SymmetryBoundary_grad_cv_bc smfg s g n of
       Inl e \<Rightarrow> True
     | Inr g' \<Rightarrow> mass g' = mass g \<and> energy g' = energy g \<and> momentum g' = momentum g)
    \<and> (nspecies s = 0 \<longrightarrow> SymmetryBoundary_grad_cv_bc smfg s g n = Inr g)
    \<and> (length (smfg (cv s) g) = nspecies s
        \<longrightarrow> \<not> isl (SymmetryBoundary_grad_cv_bc smfg s g n)))"
proof -
  have a: "case wall_grad_cv_bc smfg s g n of
       Inl e \<Rightarrow> True
     | Inr g' \<Rightarrow> mass g' = mass g \<and> energy g' = energy g \<and> momentum g' = momentum g"
  proof (cases "wall_grad_cv_bc smfg s g n")
    case (Inl e)
    then show ?thesis by simp
  next
    case (Inr g')
    then show ?thesis using wall_grad_cv_bc_frame [OF Inr] by simp
  qed
  have b: "nspecies s = 0 \<longrightarrow> wall_grad_cv_bc smfg s g n = Inr g"
    by (simp add: wall_grad_cv_bc_no_species)
  have c: "length (smfg (cv s) g) = nspecies s \<longrightarrow> \<not> isl (wall_grad_cv_bc smfg s g n)"
  proof
    assume "length (smfg (cv s) g) = nspecies s"
    then obtain g' where "wall_grad_cv_bc smfg s g n = Inr g'"
      using wall_grad_cv_bc_returns by blast
    then show "\<not> isl (wall_grad_cv_bc smfg s g n)" by simp
  qed
  show ?thesis
    unfolding IsothermalWallBoundary_grad_cv_bc_def AdiabaticNoslipWallBoundary_grad_cv_bc_def
      SymmetryBoundary_grad_cv_bc_def
    by (intro conjI a b c)
qed

theorem grad_cv_bc_frame_witness:
  "length (example_species_mass_fraction_gradient (cv example_species_state) example_grad_cv)
     = nspecies example_species_state
   \<and> IsothermalWallBoundary_grad_cv_bc example_species_mass_fraction_gradient
         example_species_state example_grad_cv [1, 0]
       = Inr \<lparr>mass = [1, 0], energy = [0, 1], momentum = [[1, 2], [3, 4]],
              species_mass = [[1 / 2, 1]]\<rparr>
   \<and> \<not> isl (IsothermalWallBoundary_grad_cv_bc example_species_mass_fraction_gradient
         example_species_state example_grad_cv [1, 0])
   \<and> nspecies example_state = 0
   \<and> SymmetryBoundary_grad_cv_bc example_species_mass_fraction_gradient
         example_state example_grad_cv [1, 0] = Inr example_grad_cv"
proof -
  have l: "length (example_species_mass_fraction_gradient (cv example_species_state)
             example_grad_cv) = nspecies example_species_state"
    by (simp add: example_species_mass_fraction_gradient_def example_species_state_def
        example_grad_cv_def make_conserved_def nspecies_def)
  have v: "IsothermalWallBoundary_grad_cv_bc example_species_mass_fraction_gradient
         example_species_state example_grad_cv [1, 0]
       = Inr \<lparr>mass = [1, 0], energy = [0, 1], momentum = [[1, 2], [3, 4]],
              species_mass = [[1 / 2, 1]]\<rparr>"
    by (simp add: IsothermalWallBoundary_grad_cv_bc_def wall_grad_cv_bc_def
        example_species_state_def example_grad_cv_def
        example_species_mass_fraction_gradient_def make_conserved_def nspecies_def Let_def
        msub_def np_outer_def matvec_def vsub_def smul_def vadd_def mass_density_def
        species_mass_fractions_def upt_conv_Cons)
  have z: "nspecies example_state = 0"
    by (simp add: nspecies_def cv_example_state)
  have r: "\<not> isl (IsothermalWallBoundary_grad_cv_bc example_species_mass_fraction_gradient
         example_species_state example_grad_cv [1, 0])"
    using grad_cv_bc_frame [where smfg = example_species_mass_fraction_gradient
        and s = example_species_state and g = example_grad_cv and n = "[1, 0]"] l by blast
  have y: "SymmetryBoundary_grad_cv_bc example_species_mass_fraction_gradient
         example_state example_grad_cv [1, 0] = Inr example_grad_cv"
    using grad_cv_bc_frame [where smfg = example_species_mass_fraction_gradient
        and s = example_state and g = example_grad_cv and n = "[1, 0]"] z by blast
  show ?thesis using l v r z y by blast
qed

subsection \<open>The default exterior state\<close>

lemma PrescribedFluidBoundary_init_state_default:
  "boundary_state_func args = None
   \<Longrightarrow> self_bnd_state_func (fst (PrescribedFluidBoundary_init args)) = identical_state"
  by (simp add: PrescribedFluidBoundary_init_def Let_def)

lemma PrescribedFluidBoundary_init_warnings:
  "snd (PrescribedFluidBoundary_init args)
   = (if inviscid_flux_func args = None \<and> boundary_state_func args = None
      then [''Using dummy boundary: copies interior solution.''] else [])"
  by (simp add: PrescribedFluidBoundary_init_def Let_def)

text \<open>
  C5, as the code has it. When a PrescribedFluidBoundary is constructed without an
  exterior-state sub-strategy, the exterior-state function is the identity (for every
  interior state the exterior state is the interior state); the warning is emitted
  exactly when no inviscid-flux override is given either; and the constructed object is
  the one obtained by passing the identity explicitly, which emits no warning: the
  warning changes no result. With no inviscid-flux override, the inviscid boundary flux
  is the numerical flux of the interior state paired with itself.
\<close>

theorem default_exterior_state_identity:
  assumes "boundary_state_func args = None"
  shows "self_bnd_state_func (fst (PrescribedFluidBoundary_init args)) gm nhat state_minus
           = Inr state_minus
         \<and> (snd (PrescribedFluidBoundary_init args)
              = [''Using dummy boundary: copies interior solution.'']
            \<longleftrightarrow> inviscid_flux_func args = None)
         \<and> (snd (PrescribedFluidBoundary_init args) = []
            \<longleftrightarrow> inviscid_flux_func args \<noteq> None)
         \<and> fst (PrescribedFluidBoundary_init args)
             = fst (PrescribedFluidBoundary_init
                      (args\<lparr>boundary_state_func := Some identical_state\<rparr>))
         \<and> snd (PrescribedFluidBoundary_init
                  (args\<lparr>boundary_state_func := Some identical_state\<rparr>)) = []
         \<and> (inviscid_flux_func args = None
            \<longrightarrow> inviscid_divergence_flux (fst (PrescribedFluidBoundary_init args))
                  gm nhat state_minus numerical_flux_func
                = Inr (numerical_flux_func
                         \<lparr>interior = state_minus, exterior = state_minus\<rparr> gm nhat))"
  using assms
  by (simp add: PrescribedFluidBoundary_init_def Let_def identical_state_def
      inviscid_divergence_flux_def inviscid_flux_for_prescribed_state_def
      boundary_state_pair_def)

theorem default_exterior_state_identity_witness:
  "boundary_state_func no_args = None
   \<and> self_bnd_state_func (fst DummyBoundary_init) (ideal_gas (7/5) 1) [1, 0] example_state
       = Inr example_state
   \<and> snd DummyBoundary_init = [''Using dummy boundary: copies interior solution.'']
   \<and> inviscid_divergence_flux (fst DummyBoundary_init) (ideal_gas (7/5) 1) [1, 0]
         example_state (\<lambda>pair gm n. cv (exterior pair))
       = Inr (cv example_state)"
proof -
  have n: "boundary_state_func no_args = None"
    by (simp add: no_args_def)
  have i: "inviscid_flux_func no_args = None"
    by (simp add: no_args_def)
  note t = default_exterior_state_identity [OF n, of "ideal_gas (7/5) 1" "[1, 0]"
      example_state "\<lambda>pair gm n. cv (exterior pair)"]
  have a: "self_bnd_state_func (fst DummyBoundary_init) (ideal_gas (7/5) 1) [1, 0]
      example_state = Inr example_state"
    unfolding DummyBoundary_init_def using t by blast
  have b: "snd DummyBoundary_init = [''Using dummy boundary: copies interior solution.'']"
    unfolding DummyBoundary_init_def using t i by blast
  have c: "inviscid_divergence_flux (fst DummyBoundary_init) (ideal_gas (7/5) 1) [1, 0]
         example_state (\<lambda>pair gm n. cv (exterior pair)) = Inr (cv example_state)"
  proof -
    have "inviscid_divergence_flux (fst (PrescribedFluidBoundary_init no_args))
            (ideal_gas (7/5) 1) [1, 0] example_state (\<lambda>pair gm n. cv (exterior pair))
          = Inr ((\<lambda>pair gm n. cv (exterior pair))
                   \<lparr>interior = example_state, exterior = example_state\<rparr>
                   (ideal_gas (7/5) 1) [1, 0])"
      using t i by blast
    then show ?thesis by (simp add: DummyBoundary_init_def)
  qed
  show ?thesis using n a b c by blast
qed

text \<open>
  The claim as the spec states it fails: with an inviscid-flux override and no
  exterior-state sub-strategy, construction emits no warning.
\<close>

theorem default_exterior_state_warning_counterexample:
  "boundary_state_func
       (no_args\<lparr>inviscid_flux_func := Some IsothermalWallBoundary_inviscid_wall_flux\<rparr>) = None
   \<and> snd (PrescribedFluidBoundary_init
            (no_args\<lparr>inviscid_flux_func := Some IsothermalWallBoundary_inviscid_wall_flux\<rparr>))
       = []"
  by (simp add: PrescribedFluidBoundary_init_def Let_def no_args_def)

subsection \<open>Wall temperature of the isothermal walls\<close>

lemma temperature_example_hot_state: "temperature (dv example_hot_state) = 400"
  by (simp add: example_hot_state_def make_fluid_state_def Let_def ideal_gas_def
      make_conserved_def)



subsection \<open>The two exterior states of the viscous walls\<close>

lemma momentum_isothermal_wall_state:
  "momentum (cv (isothermal_wall_state wall_temp gm n sm)) = replicate (dim sm) 0"
  by (simp add: isothermal_wall_state_def Let_def make_conserved_def smul_zero_replicate)

lemma momentum_adiabatic_wall_state_for_diffusion:
  "momentum (cv (adiabatic_wall_state_for_diffusion gm n sm)) = replicate (dim sm) 0"
  by (simp add: adiabatic_wall_state_for_diffusion_def Let_def make_conserved_def
      smul_zero_replicate momentum_density_def dim_def)

lemma momentum_adiabatic_wall_state_for_advection:
  "momentum (cv (adiabatic_wall_state_for_advection gm n sm)) = vneg (momentum (cv sm))"
  by (simp add: adiabatic_wall_state_for_advection_def Let_def make_conserved_def
      momentum_density_def)



subsection \<open>Construction-time shape errors\<close>

lemma FarfieldBoundary_init_velocity_error:
  "int (length v) \<noteq> numdim
   \<Longrightarrow> FarfieldBoundary_init numdim numspecies t p (Some v) y
       = Inl (ValueError ''Free-stream velocity must be of ambient dimension.'')"
  by (simp add: FarfieldBoundary_init_def)

lemma FarfieldBoundary_init_species_absent:
  "numspecies > 0 \<Longrightarrow> isl (FarfieldBoundary_init numdim numspecies t p v None)"
  by (cases v) (simp_all add: FarfieldBoundary_init_def np_zeros_def split: sum.splits)

lemma FarfieldBoundary_init_species_size:
  "numspecies > 0 \<Longrightarrow> int (length y) \<noteq> numspecies
   \<Longrightarrow> isl (FarfieldBoundary_init numdim numspecies t p v (Some y))"
  by (cases v) (simp_all add: FarfieldBoundary_init_def np_zeros_def split: sum.splits)

lemma AdiabaticNoslipMovingBoundary_init_error:
  "int (length w) \<noteq> d
   \<Longrightarrow> AdiabaticNoslipMovingBoundary_init (Some w) d
       = Inl (ValueError ''Specified wall velocity must be dim-vector.'')"
  by (simp add: AdiabaticNoslipMovingBoundary_init_def)

text \<open>
  C6. Constructing a FarfieldBoundary raises ValueError for every free-stream velocity
  whose length differs from \<^verbatim>\<open>numdim\<close>; with \<^verbatim>\<open>numspecies > 0\<close> it raises whenever the
  free-stream mass fractions are absent or of a length other than \<^verbatim>\<open>numspecies\<close>
  (with the message of the species check when the velocity has the right length).
  Constructing an AdiabaticNoslipMovingBoundary raises ValueError for every wall velocity
  whose length differs from \<^verbatim>\<open>dim\<close>. No object is returned in any of these cases.
\<close>

theorem construction_shape_errors:
  "(int (length v) \<noteq> numdim
      \<longrightarrow> FarfieldBoundary_init numdim numspecies t p (Some v) y
          = Inl (ValueError ''Free-stream velocity must be of ambient dimension.''))
   \<and> (numspecies > 0 \<longrightarrow> isl (FarfieldBoundary_init numdim numspecies t p v' None))
   \<and> (numspecies > 0 \<and> int (length y') \<noteq> numspecies
      \<longrightarrow> isl (FarfieldBoundary_init numdim numspecies t p v' (Some y')))
   \<and> (int (length v) = numdim \<and> numspecies > 0
      \<longrightarrow> FarfieldBoundary_init numdim numspecies t p (Some v) None
          = Inl (ValueError ''Free-stream species mixture fractions must be given.''))
   \<and> (int (length v) = numdim \<and> numspecies > 0 \<and> int (length y') \<noteq> numspecies
      \<longrightarrow> FarfieldBoundary_init numdim numspecies t p (Some v) (Some y')
          = Inl (ValueError ''Free-stream species mixture fractions of improper size.''))
   \<and> (int (length w) \<noteq> d
      \<longrightarrow> AdiabaticNoslipMovingBoundary_init (Some w) d
          = Inl (ValueError ''Specified wall velocity must be dim-vector.''))"
proof -
  have a: "int (length v) = numdim \<and> numspecies > 0
      \<longrightarrow> FarfieldBoundary_init numdim numspecies t p (Some v) None
          = Inl (ValueError ''Free-stream species mixture fractions must be given.'')"
    by (simp add: FarfieldBoundary_init_def)
  have b: "int (length v) = numdim \<and> numspecies > 0 \<and> int (length y') \<noteq> numspecies
      \<longrightarrow> FarfieldBoundary_init numdim numspecies t p (Some v) (Some y')
          = Inl (ValueError ''Free-stream species mixture fractions of improper size.'')"
    by (simp add: FarfieldBoundary_init_def)
  show ?thesis
    using a b FarfieldBoundary_init_velocity_error [of v numdim numspecies t p y]
      FarfieldBoundary_init_species_absent [of numspecies numdim t p v']
      FarfieldBoundary_init_species_size [of numspecies y' numdim t p v']
      AdiabaticNoslipMovingBoundary_init_error [of w d]
    by blast
qed

theorem construction_shape_errors_witness:
  "int (length [1, 2, 3 :: real]) \<noteq> 2
   \<and> FarfieldBoundary_init 2 0 300 101325 (Some [1, 2, 3]) None
       = Inl (ValueError ''Free-stream velocity must be of ambient dimension.'')
   \<and> isl (FarfieldBoundary_init 2 2 300 101325 None None)
   \<and> isl (FarfieldBoundary_init 2 2 300 101325 None (Some [1]))
   \<and> FarfieldBoundary_init 2 2 300 101325 (Some [1, 2]) (Some [1])
       = Inl (ValueError ''Free-stream species mixture fractions of improper size.'')
   \<and> AdiabaticNoslipMovingBoundary_init (Some [1, 2, 3]) 2
       = Inl (ValueError ''Specified wall velocity must be dim-vector.'')
   \<and> \<not> isl (FarfieldBoundary_init 2 2 300 101325 (Some [1, 2]) (Some [1/4, 3/4]))
   \<and> \<not> isl (AdiabaticNoslipMovingBoundary_init None 2)"
proof -
  note t1 = construction_shape_errors [where v = "[1, 2, 3]" and numdim = 2
      and numspecies = 0 and t = 300 and p = 101325 and y = None and w = "[1, 2, 3]"
      and d = 2]
  note t2 = construction_shape_errors [where v = "[1, 2]" and numdim = 2
      and numspecies = 2 and t = 300 and p = 101325 and v' = None and y' = "[1]"]
  have a: "int (length [1, 2, 3 :: real]) \<noteq> 2" by simp
  have b: "FarfieldBoundary_init 2 0 300 101325 (Some [1, 2, 3]) None
       = Inl (ValueError ''Free-stream velocity must be of ambient dimension.'')"
    using t1 a by blast
  have c: "AdiabaticNoslipMovingBoundary_init (Some [1, 2, 3]) 2
       = Inl (ValueError ''Specified wall velocity must be dim-vector.'')"
    using t1 a by blast
  have l: "int (length [1 :: real]) \<noteq> 2" "int (length [1, 2 :: real]) = 2" "(2 :: int) > 0"
    by simp_all
  have e: "isl (FarfieldBoundary_init 2 2 300 101325 None None)"
    using t2 l by blast
  have f: "isl (FarfieldBoundary_init 2 2 300 101325 None (Some [1]))"
    using t2 l by blast
  have g: "FarfieldBoundary_init 2 2 300 101325 (Some [1, 2]) (Some [1])
       = Inl (ValueError ''Free-stream species mixture fractions of improper size.'')"
    using t2 l by blast
  have h: "\<not> isl (FarfieldBoundary_init 2 2 300 101325 (Some [1, 2]) (Some [1/4, 3/4]))"
    by (simp add: FarfieldBoundary_init_def split: prod.split)
  have i: "\<not> isl (AdiabaticNoslipMovingBoundary_init None 2)"
    by (simp add: AdiabaticNoslipMovingBoundary_init_def np_zeros_def split: prod.split)
  show ?thesis using a b c e f g h i by blast
qed

subsection \<open>The farfield state and the interior values\<close>

text \<open>
  NaN propagates through the arithmetic; zero times a finite number is zero, and zero plus
  a finite double is that double.
\<close>

lemma double_nan [simp]:
  "x * NaN = NaN" "NaN * x = NaN" "x + NaN = NaN" "NaN + x = NaN"
  "x - NaN = NaN" "NaN - x = NaN" "x / NaN = NaN" "NaN / x = NaN"
  by (cases x; simp add: times_double_def plus_double_def minus_double_def
      divide_double_def)+

lemma smul_zero_finite:
  "list_all finite_double v \<Longrightarrow> smul 0 v = replicate (length v) (0::double)"
proof (induction v)
  case Nil
  show ?case by (simp add: smul_def)
next
  case (Cons d v)
  then obtain a where "d = Finite a" by (auto elim: finite_doubleE)
  then show ?case using Cons by (simp add: smul_def)
qed

lemma map2_add_zero_finite:
  "list_all finite_double v \<Longrightarrow> map2 (+) (replicate (length v) 0) v = v"
proof (induction v)
  case Nil
  show ?case by simp
next
  case (Cons d v)
  then obtain a where "d = Finite a" "is_double a" by (auto elim: finite_doubleE)
  then show ?case using Cons by (simp add: double_add_zero)
qed

lemma np_add_zero_finite:
  "list_all finite_double v \<Longrightarrow> np_add (replicate (length v) 0) v = Inr v"
  by (simp add: np_add_def map2_add_zero_finite)

lemma zero_add_finite: "finite_double d \<Longrightarrow> 0 + d = d"
  by (erule finite_doubleE) (simp add: double_add_zero)

lemma zero_mult_finite: "finite_double d \<Longrightarrow> 0 * d = 0"
  by (erule finite_doubleE) simp

lemma farfield_state_finite_interior:
  assumes "finite_double (temperature (dv s))" and "finite_double (pressure (dv s))"
    and "list_all finite_double (velocity s)"
    and "list_all finite_double (species_mass_fractions s)"
  shows "farfield_state t p y v gm n s =
     (case np_add_opt (replicate (nspecies s) 0) y of
        Inl e \<Rightarrow> Inl e
      | Inr ys \<Rightarrow>
          (case np_add (replicate (dim s) 0) v of
             Inl e \<Rightarrow> Inl e
           | Inr vs \<Rightarrow>
               Inr (make_fluid_state gm
                      (make_conserved (eos_get_density gm (0 + p) (0 + t) ys)
                         (eos_get_density gm (0 + p) (0 + t) ys
                            * (eos_get_internal_energy gm (0 + t) ys
                               + half * np_dot vs vs))
                         (smul (eos_get_density gm (0 + p) (0 + t) ys) vs)
                         (smul (eos_get_density gm (0 + p) (0 + t) ys) ys))
                      (Some (0 + t)))))"
proof -
  have v: "smul 0 (velocity s) = replicate (dim s) 0"
    using smul_zero_finite [OF assms(3)] by (simp add: velocity_def dim_def)
  have y: "smul 0 (species_mass_fractions s) = replicate (nspecies s) 0"
    using smul_zero_finite [OF assms(4)] by (simp add: species_mass_fractions_def nspecies_def)
  show ?thesis
    by (simp add: farfield_state_def Let_def v y zero_mult_finite [OF assms(1)]
        zero_mult_finite [OF assms(2)] split: sum.split)
qed

lemma farfield_state_free_stream:
  assumes "finite_double (temperature (dv s))" and "finite_double (pressure (dv s))"
    and "list_all finite_double (velocity s)"
    and "list_all finite_double (species_mass_fractions s)"
    and "finite_double t" and "finite_double p" and "list_all finite_double v"
    and "list_all finite_double ys" and "length v = dim s" and "length ys = nspecies s"
  shows "farfield_state t p (Some ys) v gm n s
         = Inr (make_fluid_state gm
                 (make_conserved (eos_get_density gm p t ys)
                    (eos_get_density gm p t ys
                       * (eos_get_internal_energy gm t ys + half * np_dot v v))
                    (smul (eos_get_density gm p t ys) v)
                    (smul (eos_get_density gm p t ys) ys))
                 (Some t))"
proof -
  have "np_add (replicate (dim s) 0) v = Inr v"
    using assms(7,9) np_add_zero_finite [of v] by simp
  moreover have "np_add_opt (replicate (nspecies s) 0) (Some ys) = Inr ys"
    using assms(8,10) np_add_zero_finite [of ys] by (simp add: np_add_opt_def)
  moreover have "0 + t = t" "0 + p = p"
    using assms(5,6) by (simp_all add: zero_add_finite)
  ultimately show ?thesis
    by (simp add: farfield_state_finite_interior [OF assms(1-4)])
qed

text \<open>The values of the concrete states and of the free stream used below.\<close>

lemma example_double_state_values:
  "temperature (dv example_double_state) = Finite (15 / 4)"
  "pressure (dv example_double_state) = Finite (15 / 4)"
  "velocity example_double_state = [Finite 3, Finite 4]"
  "species_mass_fractions example_double_state = [Finite 1]"
proof -
  have r1: "Finite 3 * Finite 3 = Finite 9"
    unfolding times_double_def dmul.simps
    by (rule round_to_double_eval [where e = "3" and u = "1 / 2 ^ 49" and k = "5066549580791808"])
       (simp_all add: pow2_def round_half_even_def double_overflow_def)
  have r2: "Finite 4 * Finite 4 = Finite 16"
    unfolding times_double_def dmul.simps
    by (rule round_to_double_eval [where e = "4" and u = "1 / 2 ^ 48" and k = "4503599627370496"])
       (simp_all add: pow2_def round_half_even_def double_overflow_def)
  have r3: "Finite 9 + Finite 16 = Finite 25"
    unfolding plus_double_def dadd.simps
    by (rule round_to_double_eval [where e = "4" and u = "1 / 2 ^ 48" and k = "7036874417766400"])
       (simp_all add: pow2_def round_half_even_def double_overflow_def)
  have r4: "Finite 2 * Finite 1 = Finite 2"
    unfolding times_double_def dmul.simps
    by (rule round_to_double_eval [where e = "1" and u = "1 / 2 ^ 51" and k = "4503599627370496"])
       (simp_all add: pow2_def round_half_even_def double_overflow_def)
  have r5: "Finite 25 / Finite 2 = Finite (25 / 2)"
  proof -
    have nz: "2 \<noteq> (0::real)" by simp
    show ?thesis
      unfolding ddiv_Finite [OF nz]
      by (rule round_to_double_eval [where e = "3" and u = "1 / 2 ^ 49" and k = "7036874417766400"])
         (simp_all add: pow2_def round_half_even_def double_overflow_def)
  qed
  have r6: "Finite 20 - Finite (25 / 2) = Finite (15 / 2)"
    unfolding minus_double_def dadd.simps dneg.simps
    by (rule round_to_double_eval [where e = "2" and u = "1 / 2 ^ 50" and k = "8444249301319680"])
       (simp_all add: pow2_def round_half_even_def double_overflow_def)
  have r7: "Finite (3 / 2) - Finite 1 = Finite (1 / 2)"
    unfolding minus_double_def dadd.simps dneg.simps
    by (rule round_to_double_eval [where e = "-1" and u = "1 / 2 ^ 53" and k = "4503599627370496"])
       (simp_all add: pow2_def round_half_even_def double_overflow_def)
  have r8: "Finite (1 / 2) / Finite 1 = Finite (1 / 2)"
  proof -
    have nz: "1 \<noteq> (0::real)" by simp
    show ?thesis
      unfolding ddiv_Finite [OF nz]
      by (rule round_to_double_eval [where e = "-1" and u = "1 / 2 ^ 53" and k = "4503599627370496"])
         (simp_all add: pow2_def round_half_even_def double_overflow_def)
  qed
  have r9: "Finite (1 / 2) * Finite (15 / 2) = Finite (15 / 4)"
    unfolding times_double_def dmul.simps
    by (rule round_to_double_eval [where e = "1" and u = "1 / 2 ^ 51" and k = "8444249301319680"])
       (simp_all add: pow2_def round_half_even_def double_overflow_def)
  have r10: "Finite (15 / 4) / Finite 1 = Finite (15 / 4)"
  proof -
    have nz: "1 \<noteq> (0::real)" by simp
    show ?thesis
      unfolding ddiv_Finite [OF nz]
      by (rule round_to_double_eval [where e = "1" and u = "1 / 2 ^ 51" and k = "8444249301319680"])
         (simp_all add: pow2_def round_half_even_def double_overflow_def)
  qed
  have r11: "Finite 3 / Finite 1 = Finite 3"
  proof -
    have nz: "1 \<noteq> (0::real)" by simp
    show ?thesis
      unfolding ddiv_Finite [OF nz]
      by (rule round_to_double_eval [where e = "1" and u = "1 / 2 ^ 51" and k = "6755399441055744"])
         (simp_all add: pow2_def round_half_even_def double_overflow_def)
  qed
  have r12: "Finite 4 / Finite 1 = Finite 4"
  proof -
    have nz: "1 \<noteq> (0::real)" by simp
    show ?thesis
      unfolding ddiv_Finite [OF nz]
      by (rule round_to_double_eval [where e = "2" and u = "1 / 2 ^ 50" and k = "4503599627370496"])
         (simp_all add: pow2_def round_half_even_def double_overflow_def)
  qed
  have r13: "Finite 1 / Finite 1 = Finite 1"
  proof -
    have nz: "1 \<noteq> (0::real)" by simp
    show ?thesis
      unfolding ddiv_Finite [OF nz]
      by (rule round_to_double_eval [where e = "0" and u = "1 / 2 ^ 52" and k = "4503599627370496"])
         (simp_all add: pow2_def round_half_even_def double_overflow_def)
  qed
  note r = r1 r2 r3 r4 r5 r6 r7 r8 r9 r10 r11 r12 r13
  show "temperature (dv example_double_state) = Finite (15 / 4)"
    by (simp only: example_double_state_def make_fluid_state_def Let_def example_gas_def ideal_gas_double_def make_conserved_def
        velocity_def species_mass_fractions_def FluidState.select_convs
        DependentVars.select_convs ConservedVars.select_convs GasModel.select_convs
        list.map np_dot2 double_two one_double_def r)
  show "pressure (dv example_double_state) = Finite (15 / 4)"
    by (simp only: example_double_state_def make_fluid_state_def Let_def example_gas_def ideal_gas_double_def make_conserved_def
        velocity_def species_mass_fractions_def FluidState.select_convs
        DependentVars.select_convs ConservedVars.select_convs GasModel.select_convs
        list.map np_dot2 double_two one_double_def r)
  show "velocity example_double_state = [Finite 3, Finite 4]"
    by (simp only: example_double_state_def make_fluid_state_def Let_def example_gas_def ideal_gas_double_def make_conserved_def
        velocity_def species_mass_fractions_def FluidState.select_convs
        DependentVars.select_convs ConservedVars.select_convs GasModel.select_convs
        list.map np_dot2 double_two one_double_def r)
  show "species_mass_fractions example_double_state = [Finite 1]"
    by (simp only: example_double_state_def make_fluid_state_def Let_def example_gas_def ideal_gas_double_def make_conserved_def
        velocity_def species_mass_fractions_def FluidState.select_convs
        DependentVars.select_convs ConservedVars.select_convs GasModel.select_convs
        list.map np_dot2 double_two one_double_def r)
qed

lemma example_double_state_2_values:
  "temperature (dv example_double_state_2) = Finite (3 / 4)"
  "pressure (dv example_double_state_2) = Finite (3 / 2)"
  "velocity example_double_state_2 = [Finite 1, Finite 0]"
  "species_mass_fractions example_double_state_2 = [Finite (1 / 2)]"
proof -
  have r1: "Finite 2 * Finite 2 = Finite 4"
    unfolding times_double_def dmul.simps
    by (rule round_to_double_eval [where e = "2" and u = "1 / 2 ^ 50" and k = "4503599627370496"])
       (simp_all add: pow2_def round_half_even_def double_overflow_def)
  have r2: "Finite 0 * Finite 0 = Finite 0"
    by (simp add: times_double_def round_to_double_is_double)
  have r3: "Finite 4 + Finite 0 = Finite 4"
    unfolding plus_double_def dadd.simps
    by (rule round_to_double_eval [where e = "2" and u = "1 / 2 ^ 50" and k = "4503599627370496"])
       (simp_all add: pow2_def round_half_even_def double_overflow_def)
  have r4: "Finite 4 / Finite 4 = Finite 1"
  proof -
    have nz: "4 \<noteq> (0::real)" by simp
    show ?thesis
      unfolding ddiv_Finite [OF nz]
      by (rule round_to_double_eval [where e = "0" and u = "1 / 2 ^ 52" and k = "4503599627370496"])
         (simp_all add: pow2_def round_half_even_def double_overflow_def)
  qed
  have r5: "Finite 4 - Finite 1 = Finite 3"
    unfolding minus_double_def dadd.simps dneg.simps
    by (rule round_to_double_eval [where e = "1" and u = "1 / 2 ^ 51" and k = "6755399441055744"])
       (simp_all add: pow2_def round_half_even_def double_overflow_def)
  have r6: "Finite (3 / 2) - Finite 1 = Finite (1 / 2)"
    unfolding minus_double_def dadd.simps dneg.simps
    by (rule round_to_double_eval [where e = "-1" and u = "1 / 2 ^ 53" and k = "4503599627370496"])
       (simp_all add: pow2_def round_half_even_def double_overflow_def)
  have r7: "Finite (1 / 2) / Finite 1 = Finite (1 / 2)"
  proof -
    have nz: "1 \<noteq> (0::real)" by simp
    show ?thesis
      unfolding ddiv_Finite [OF nz]
      by (rule round_to_double_eval [where e = "-1" and u = "1 / 2 ^ 53" and k = "4503599627370496"])
         (simp_all add: pow2_def round_half_even_def double_overflow_def)
  qed
  have r8: "Finite (1 / 2) * Finite 3 = Finite (3 / 2)"
    unfolding times_double_def dmul.simps
    by (rule round_to_double_eval [where e = "0" and u = "1 / 2 ^ 52" and k = "6755399441055744"])
       (simp_all add: pow2_def round_half_even_def double_overflow_def)
  have r9: "Finite (3 / 2) / Finite 2 = Finite (3 / 4)"
  proof -
    have nz: "2 \<noteq> (0::real)" by simp
    show ?thesis
      unfolding ddiv_Finite [OF nz]
      by (rule round_to_double_eval [where e = "-1" and u = "1 / 2 ^ 53" and k = "6755399441055744"])
         (simp_all add: pow2_def round_half_even_def double_overflow_def)
  qed
  have r10: "Finite 2 / Finite 2 = Finite 1"
  proof -
    have nz: "2 \<noteq> (0::real)" by simp
    show ?thesis
      unfolding ddiv_Finite [OF nz]
      by (rule round_to_double_eval [where e = "0" and u = "1 / 2 ^ 52" and k = "4503599627370496"])
         (simp_all add: pow2_def round_half_even_def double_overflow_def)
  qed
  have r11: "Finite 0 / Finite 2 = Finite 0"
    by (simp add: divide_double_def round_to_double_is_double)
  have r12: "Finite 1 / Finite 2 = Finite (1 / 2)"
  proof -
    have nz: "2 \<noteq> (0::real)" by simp
    show ?thesis
      unfolding ddiv_Finite [OF nz]
      by (rule round_to_double_eval [where e = "-1" and u = "1 / 2 ^ 53" and k = "4503599627370496"])
         (simp_all add: pow2_def round_half_even_def double_overflow_def)
  qed
  note r = r1 r2 r3 r4 r5 r6 r7 r8 r9 r10 r11 r12
  show "temperature (dv example_double_state_2) = Finite (3 / 4)"
    by (simp only: example_double_state_2_def make_fluid_state_def Let_def example_gas_def ideal_gas_double_def make_conserved_def
        velocity_def species_mass_fractions_def FluidState.select_convs
        DependentVars.select_convs ConservedVars.select_convs GasModel.select_convs
        list.map np_dot2 double_two one_double_def r)
  show "pressure (dv example_double_state_2) = Finite (3 / 2)"
    by (simp only: example_double_state_2_def make_fluid_state_def Let_def example_gas_def ideal_gas_double_def make_conserved_def
        velocity_def species_mass_fractions_def FluidState.select_convs
        DependentVars.select_convs ConservedVars.select_convs GasModel.select_convs
        list.map np_dot2 double_two one_double_def r)
  show "velocity example_double_state_2 = [Finite 1, Finite 0]"
    by (simp only: example_double_state_2_def make_fluid_state_def Let_def example_gas_def ideal_gas_double_def make_conserved_def
        velocity_def species_mass_fractions_def FluidState.select_convs
        DependentVars.select_convs ConservedVars.select_convs GasModel.select_convs
        list.map np_dot2 double_two one_double_def r)
  show "species_mass_fractions example_double_state_2 = [Finite (1 / 2)]"
    by (simp only: example_double_state_2_def make_fluid_state_def Let_def example_gas_def ideal_gas_double_def make_conserved_def
        velocity_def species_mass_fractions_def FluidState.select_convs
        DependentVars.select_convs ConservedVars.select_convs GasModel.select_convs
        list.map np_dot2 double_two one_double_def r)
qed

lemma example_free_stream:
  "make_conserved (eos_get_density example_gas (Finite 101325) (Finite 300) [Finite 1])
     (eos_get_density example_gas (Finite 101325) (Finite 300) [Finite 1]
        * (eos_get_internal_energy example_gas (Finite 300) [Finite 1]
           + half * np_dot [Finite 10, Finite 0] [Finite 10, Finite 0]))
     (smul (eos_get_density example_gas (Finite 101325) (Finite 300) [Finite 1]) [Finite 10, Finite 0])
     (smul (eos_get_density example_gas (Finite 101325) (Finite 300) [Finite 1]) [Finite 1])
   = \<lparr>mass = Finite (1351 / 4), energy = Finite (439075 / 2),
      momentum = [Finite (6755 / 2), Finite 0], species_mass = [Finite (1351 / 4)]\<rparr>"
proof -
  have r1: "Finite 1 * Finite 300 = Finite 300"
    unfolding times_double_def dmul.simps
    by (rule round_to_double_eval [where e = "8" and u = "1 / 2 ^ 44" and k = "5277655813324800"])
       (simp_all add: pow2_def round_half_even_def double_overflow_def)
  have r2: "Finite 101325 / Finite 300 = Finite (1351 / 4)"
  proof -
    have nz: "300 \<noteq> (0::real)" by simp
    show ?thesis
      unfolding ddiv_Finite [OF nz]
      by (rule round_to_double_eval [where e = "8" and u = "1 / 2 ^ 44" and k = "5941760836501504"])
         (simp_all add: pow2_def round_half_even_def double_overflow_def)
  qed
  have r3: "Finite (3 / 2) - Finite 1 = Finite (1 / 2)"
    unfolding minus_double_def dadd.simps dneg.simps
    by (rule round_to_double_eval [where e = "-1" and u = "1 / 2 ^ 53" and k = "4503599627370496"])
       (simp_all add: pow2_def round_half_even_def double_overflow_def)
  have r4: "Finite 300 / Finite (1 / 2) = Finite 600"
  proof -
    have nz: "(1 / 2) \<noteq> (0::real)" by simp
    show ?thesis
      unfolding ddiv_Finite [OF nz]
      by (rule round_to_double_eval [where e = "9" and u = "1 / 2 ^ 43" and k = "5277655813324800"])
         (simp_all add: pow2_def round_half_even_def double_overflow_def)
  qed
  have r5: "Finite 1 / Finite 2 = Finite (1 / 2)"
  proof -
    have nz: "2 \<noteq> (0::real)" by simp
    show ?thesis
      unfolding ddiv_Finite [OF nz]
      by (rule round_to_double_eval [where e = "-1" and u = "1 / 2 ^ 53" and k = "4503599627370496"])
         (simp_all add: pow2_def round_half_even_def double_overflow_def)
  qed
  have r6: "Finite 10 * Finite 10 = Finite 100"
    unfolding times_double_def dmul.simps
    by (rule round_to_double_eval [where e = "6" and u = "1 / 2 ^ 46" and k = "7036874417766400"])
       (simp_all add: pow2_def round_half_even_def double_overflow_def)
  have r7: "Finite 0 * Finite 0 = Finite 0"
    by (simp add: times_double_def round_to_double_is_double)
  have r8: "Finite 100 + Finite 0 = Finite 100"
    unfolding plus_double_def dadd.simps
    by (rule round_to_double_eval [where e = "6" and u = "1 / 2 ^ 46" and k = "7036874417766400"])
       (simp_all add: pow2_def round_half_even_def double_overflow_def)
  have r9: "Finite (1 / 2) * Finite 100 = Finite 50"
    unfolding times_double_def dmul.simps
    by (rule round_to_double_eval [where e = "5" and u = "1 / 2 ^ 47" and k = "7036874417766400"])
       (simp_all add: pow2_def round_half_even_def double_overflow_def)
  have r10: "Finite 600 + Finite 50 = Finite 650"
    unfolding plus_double_def dadd.simps
    by (rule round_to_double_eval [where e = "9" and u = "1 / 2 ^ 43" and k = "5717460464435200"])
       (simp_all add: pow2_def round_half_even_def double_overflow_def)
  have r11: "Finite (1351 / 4) * Finite 650 = Finite (439075 / 2)"
    unfolding times_double_def dmul.simps
    by (rule round_to_double_eval [where e = "17" and u = "1 / 2 ^ 35" and k = "7543251061964800"])
       (simp_all add: pow2_def round_half_even_def double_overflow_def)
  have r12: "Finite (1351 / 4) * Finite 10 = Finite (6755 / 2)"
    unfolding times_double_def dmul.simps
    by (rule round_to_double_eval [where e = "11" and u = "1 / 2 ^ 41" and k = "7427201045626880"])
       (simp_all add: pow2_def round_half_even_def double_overflow_def)
  have r13: "Finite (1351 / 4) * Finite 0 = Finite 0"
    by (simp add: times_double_def round_to_double_is_double)
  have r14: "Finite (1351 / 4) * Finite 1 = Finite (1351 / 4)"
    unfolding times_double_def dmul.simps
    by (rule round_to_double_eval [where e = "8" and u = "1 / 2 ^ 44" and k = "5941760836501504"])
       (simp_all add: pow2_def round_half_even_def double_overflow_def)
  note r = r1 r2 r3 r4 r5 r6 r7 r8 r9 r10 r11 r12 r13 r14
  show ?thesis
    by (simp only: example_gas_def ideal_gas_double_def make_conserved_def
        GasModel.select_convs np_dot2 smul_def list.map half_def double_two one_double_def r)
qed

lemma example_double_states_finite:
  "finite_double (temperature (dv example_double_state))"
  "finite_double (pressure (dv example_double_state))"
  "list_all finite_double (velocity example_double_state)"
  "list_all finite_double (species_mass_fractions example_double_state)"
  "finite_double (temperature (dv example_double_state_2))"
  "finite_double (pressure (dv example_double_state_2))"
  "list_all finite_double (velocity example_double_state_2)"
  "list_all finite_double (species_mass_fractions example_double_state_2)"
  "finite_double (Finite 300)" "finite_double (Finite 101325)"
  "list_all finite_double [Finite 10, Finite 0]" "list_all finite_double [Finite 1]"
proof -
  have d1: "is_double (1 / 2)"
    by (rule is_double_eval [where e = "-1" and u = "1 / 2 ^ 53" and k = "4503599627370496"])
       (simp_all add: pow2_def double_overflow_def)
  have d2: "is_double (3 / 4)"
    by (rule is_double_eval [where e = "-1" and u = "1 / 2 ^ 53" and k = "6755399441055744"])
       (simp_all add: pow2_def double_overflow_def)
  have d3: "is_double 1"
    by (rule is_double_eval [where e = "0" and u = "1 / 2 ^ 52" and k = "4503599627370496"])
       (simp_all add: pow2_def double_overflow_def)
  have d4: "is_double (3 / 2)"
    by (rule is_double_eval [where e = "0" and u = "1 / 2 ^ 52" and k = "6755399441055744"])
       (simp_all add: pow2_def double_overflow_def)
  have d5: "is_double 3"
    by (rule is_double_eval [where e = "1" and u = "1 / 2 ^ 51" and k = "6755399441055744"])
       (simp_all add: pow2_def double_overflow_def)
  have d6: "is_double (15 / 4)"
    by (rule is_double_eval [where e = "1" and u = "1 / 2 ^ 51" and k = "8444249301319680"])
       (simp_all add: pow2_def double_overflow_def)
  have d7: "is_double 4"
    by (rule is_double_eval [where e = "2" and u = "1 / 2 ^ 50" and k = "4503599627370496"])
       (simp_all add: pow2_def double_overflow_def)
  have d8: "is_double 10"
    by (rule is_double_eval [where e = "3" and u = "1 / 2 ^ 49" and k = "5629499534213120"])
       (simp_all add: pow2_def double_overflow_def)
  have d9: "is_double 300"
    by (rule is_double_eval [where e = "8" and u = "1 / 2 ^ 44" and k = "5277655813324800"])
       (simp_all add: pow2_def double_overflow_def)
  have d10: "is_double 101325"
    by (rule is_double_eval [where e = "16" and u = "1 / 2 ^ 36" and k = "6963000980275200"])
       (simp_all add: pow2_def double_overflow_def)
  note d = d1 d2 d3 d4 d5 d6 d7 d8 d9 d10
  show "finite_double (temperature (dv example_double_state))"
    "finite_double (pressure (dv example_double_state))"
    "list_all finite_double (velocity example_double_state)"
    "list_all finite_double (species_mass_fractions example_double_state)"
    by (simp_all add: example_double_state_values d)
  show "finite_double (temperature (dv example_double_state_2))"
    "finite_double (pressure (dv example_double_state_2))"
    "list_all finite_double (velocity example_double_state_2)"
    "list_all finite_double (species_mass_fractions example_double_state_2)"
    by (simp_all add: example_double_state_2_values d)
  show "finite_double (Finite 300)" "finite_double (Finite 101325)"
    "list_all finite_double [Finite 10, Finite 0]" "list_all finite_double [Finite 1]"
    by (simp_all add: d)
qed

lemma example_double_states_shape:
  "dim example_double_state = 2" "nspecies example_double_state = 1"
  "dim example_double_state_2 = 2" "nspecies example_double_state_2 = 1"
  "dim example_vacuum_state = 2" "nspecies example_vacuum_state = 1"
  by (simp_all add: dim_def nspecies_def example_double_state_def example_double_state_2_def
      example_vacuum_state_def make_conserved_def)

lemma example_vacuum_state_values:
  "temperature (dv example_vacuum_state) = NaN"
  "pressure (dv example_vacuum_state) = NaN"
  "velocity example_vacuum_state = [NaN, NaN]"
  "species_mass_fractions example_vacuum_state = [NaN]"
proof -
  have z: "Finite 0 / Finite 0 = NaN" by (simp add: divide_double_def)
  have m: "two * Finite 0 = Finite 0"
    using double_mult_zero(1) [of 2] by (simp add: double_two zero_double_def)
  have q: "Finite 0 * Finite 0 = Finite 0" "Finite 0 + Finite 0 = Finite 0"
    using double_mult_zero(1) [of 0] double_zero_add_zero by (simp_all add: zero_double_def)
  show "temperature (dv example_vacuum_state) = NaN"
    "pressure (dv example_vacuum_state) = NaN"
    "velocity example_vacuum_state = [NaN, NaN]"
    "species_mass_fractions example_vacuum_state = [NaN]"
    by (simp_all add: example_vacuum_state_def make_fluid_state_def Let_def example_gas_def
        ideal_gas_double_def make_conserved_def velocity_def species_mass_fractions_def
        np_dot2 z m q)
qed





subsection \<open>The outflow state\<close>

lemma outflow_state_cv:
  "cv (outflow_state bp gm nhat s)
   = \<lparr>mass = mass (cv s),
      energy = (if sqrt (np_dot (smul (np_dot (velocity s) nhat) nhat)
                                (smul (np_dot (velocity s) nhat) nhat))
                   > speed_of_sound (dv s)
                then pressure (dv s) else 2 * bp - pressure (dv s))
               / (eos_gamma gm (cv s) (temperature (dv s)) - 1)
               + eos_kinetic_energy gm (cv s),
      momentum = momentum (cv s),
      species_mass = species_mass (cv s)\<rparr>"
  by (simp add: outflow_state_def Let_def make_conserved_def np_where_def np_greater_def)

lemma outflow_state_frame:
  "mass (cv (outflow_state bp gm nhat s)) = mass (cv s)
   \<and> momentum (cv (outflow_state bp gm nhat s)) = momentum (cv s)
   \<and> species_mass (cv (outflow_state bp gm nhat s)) = species_mass (cv s)"
  by (simp add: outflow_state_cv)

lemma outflow_state_subsonic_or_sonic:
  "sqrt (np_dot (smul (np_dot (velocity s) nhat) nhat) (smul (np_dot (velocity s) nhat) nhat))
     \<le> speed_of_sound (dv s)
   \<Longrightarrow> energy (cv (outflow_state bp gm nhat s))
       = (2 * bp - pressure (dv s)) / (eos_gamma gm (cv s) (temperature (dv s)) - 1)
         + eos_kinetic_energy gm (cv s)"
  by (simp add: outflow_state_cv)

lemma outflow_state_supersonic:
  "sqrt (np_dot (smul (np_dot (velocity s) nhat) nhat) (smul (np_dot (velocity s) nhat) nhat))
     > speed_of_sound (dv s)
   \<Longrightarrow> energy (cv (outflow_state bp gm nhat s))
       = pressure (dv s) / (eos_gamma gm (cv s) (temperature (dv s)) - 1)
         + eos_kinetic_energy gm (cv s)"
  by (simp add: outflow_state_cv)

text \<open>
  For a state of the ideal gas, the energy rebuilt from the interior pressure is the
  interior energy.
\<close>

lemma outflow_state_supersonic_ideal_gas:
  assumes "g \<noteq> 1" and "s = make_fluid_state (ideal_gas g R) c seed"
    and "sqrt (np_dot (smul (np_dot (velocity s) nhat) nhat)
                      (smul (np_dot (velocity s) nhat) nhat)) > speed_of_sound (dv s)"
  shows "energy (cv (outflow_state bp (ideal_gas g R) nhat s)) = energy (cv s)"
proof -
  have "energy (cv (outflow_state bp (ideal_gas g R) nhat s))
        = pressure (dv s) / (eos_gamma (ideal_gas g R) (cv s) (temperature (dv s)) - 1)
          + eos_kinetic_energy (ideal_gas g R) (cv s)"
    using assms(3) by (rule outflow_state_supersonic)
  also have "\<dots> = energy (cv s)"
    using assms(1) by (simp add: assms(2) make_fluid_state_def Let_def ideal_gas_def)
  finally show ?thesis .
qed

lemma outflow_state_field_nth:
  "i < length nhats \<Longrightarrow> i < length states
   \<Longrightarrow> outflow_state_field bp gm nhats states ! i
       = outflow_state bp gm (nhats ! i) (states ! i)"
  by (simp add: outflow_state_field_def)

lemma sqrt_nine: "sqrt 9 = 3"
  by (rule real_sqrt_unique) simp_all

lemma example_sonic_state_values:
  "cv example_sonic_state
     = \<lparr>mass = 1, energy = 33/2, momentum = [3, 0], species_mass = []\<rparr>"
  "pressure (dv example_sonic_state) = 6"
  "speed_of_sound (dv example_sonic_state) = 3"
  "velocity example_sonic_state = [3, 0]"
  by (simp_all add: example_sonic_state_def make_fluid_state_def Let_def ideal_gas_def
      make_conserved_def velocity_def sqrt_nine)

text \<open>
  C1. The claim (and the docstring of OutflowBoundary: supersonic when the normal velocity
  is \<open>\<ge> c\<close>, and then \<open>\<rho>E\<^sup>+ = \<rho>E\<^sup>-\<close>) takes the interior energy when the boundary-normal
  velocity equals the speed of sound; \<^verbatim>\<open>outflow_state\<close> compares with
  \<^verbatim>\<open>actx.np.greater\<close>. At the state below the normal velocity and the speed of sound
  are both 3 and the interior energy is \<open>33/2\<close>, and the exterior energy is
  \<open>(2 \<cdot> 101325 - 6) / (3/2 - 1) + 9/2 = 810585/2\<close>; mass, momentum and species mass are
  copied. Every number of this computation is a double, so it is the same in the program's
  floating-point arithmetic.
\<close>

theorem outflow_state_sonic_point:
  "np_dot (velocity example_sonic_state) [1, 0] = speed_of_sound (dv example_sonic_state)
   \<and> sqrt (np_dot (smul (np_dot (velocity example_sonic_state) [1, 0]) [1, 0])
                  (smul (np_dot (velocity example_sonic_state) [1, 0]) [1, 0]))
       = speed_of_sound (dv example_sonic_state)
   \<and> energy (cv example_sonic_state) = 33/2
   \<and> energy (cv (outflow_state 101325 (ideal_gas (3/2) 1) [1, 0] example_sonic_state))
       = 810585/2
   \<and> outflow_state_field 101325 (ideal_gas (3/2) 1) [[1, 0]] [example_sonic_state]
       = [outflow_state 101325 (ideal_gas (3/2) 1) [1, 0] example_sonic_state]
   \<and> mass (cv (outflow_state 101325 (ideal_gas (3/2) 1) [1, 0] example_sonic_state)) = 1
   \<and> momentum (cv (outflow_state 101325 (ideal_gas (3/2) 1) [1, 0] example_sonic_state))
       = [3, 0]"
proof -
  have a: "np_dot (velocity example_sonic_state) [1, 0] = 3"
    by (simp add: example_sonic_state_values)
  have b: "sqrt (np_dot (smul (np_dot (velocity example_sonic_state) [1, 0]) [1, 0])
                  (smul (np_dot (velocity example_sonic_state) [1, 0]) [1, 0])) = 3"
    by (simp add: a smul_def sqrt_nine)
  have b': "sqrt (np_dot (smul 3 [1, 0]) (smul 3 [1, 0 :: real])) = 3"
    by (simp add: smul_def sqrt_nine)
  have c: "energy (cv (outflow_state 101325 (ideal_gas (3/2) 1) [1, 0] example_sonic_state))
       = 810585/2"
    by (simp add: outflow_state_cv b' example_sonic_state_values)
       (simp add: ideal_gas_def)
  have d: "outflow_state_field 101325 (ideal_gas (3/2) 1) [[1, 0]] [example_sonic_state]
       = [outflow_state 101325 (ideal_gas (3/2) 1) [1, 0] example_sonic_state]"
    by (simp add: outflow_state_field_def)
  show ?thesis
    using a b c d by (simp add: example_sonic_state_values outflow_state_frame)
qed

subsection \<open>Temperature exchange in the Euler operator\<close>

lemma euler_operator_result:
  "fst (euler_operator env state gm bnds t nff qt)
   = - div_operator env (DOFDesc ''vol'' qt) (DOFDesc ''all_faces'' qt)
        (inviscid_flux env
           (project_fluid_state env (as_dofdesc ''vol'') (DOFDesc ''vol'' qt) state gm))
        (py_sum (map (\<lambda>(btag, b). boundary_inviscid_divergence_flux env b
                        (with_discr_tag (as_dofdesc btag) qt) gm
                        (project_fluid_state env (as_dofdesc ''vol'')
                           (with_discr_tag (as_dofdesc btag) qt) state gm) t nff) bnds)
         + py_sum (map (\<lambda>state_pair. inviscid_facial_flux env gm state_pair nff)
                       (make_fluid_state_trace_pairs env (cv_interior_pairs env state qt) gm
                          (tseed_interior_pairs env state qt))))"
  by (simp add: euler_operator_def Let_def)

lemma euler_operator_exchanges:
  "snd (euler_operator env state gm bnds t nff qt)
   = [ExchangedCV] @ (if state_is_mixture env state then [ExchangedTemperature] else [])"
  by (simp add: euler_operator_def Let_def)

lemma cv_interior_pairs_temperature_free:
  "cv_interior_pairs
     (env\<lparr>interior_trace_pairs_temperature := itp, project_temperature := pt\<rparr>) state qt
   = cv_interior_pairs env state qt"
  by (simp add: cv_interior_pairs_def)

lemma tseed_interior_pairs_no_mixture:
  "\<not> state_is_mixture env state
   \<Longrightarrow> tseed_interior_pairs
         (env\<lparr>interior_trace_pairs_temperature := itp, project_temperature := pt\<rparr>) state qt
       = None"
  by (simp add: tseed_interior_pairs_def)

lemma euler_operator_no_mixture:
  assumes "\<not> state_is_mixture env state"
  shows "euler_operator
           (env\<lparr>interior_trace_pairs_temperature := itp, project_temperature := pt\<rparr>)
           state gm bnds t nff qt
         = euler_operator env state gm bnds t nff qt"
proof -
  have "tseed_interior_pairs env state qt = None"
    using assms by (simp add: tseed_interior_pairs_def)
  then show ?thesis
    using assms
    by (simp add: euler_operator_def Let_def cv_interior_pairs_temperature_free
        tseed_interior_pairs_no_mixture)
qed

text \<open>
  C8. In \<^verbatim>\<open>euler_operator\<close> the temperature's interior trace pairs are formed, and the
  temperature exchanged, if and only if the state is a mixture; they enter the result only
  as the seed argument of \<^verbatim>\<open>make_fluid_state_trace_pairs\<close>. For a state that is not a
  mixture the seed argument is \<open>None\<close> and the operator does not depend on the temperature
  exchange or projection at all; for a mixture the seeds are the temperature's interior
  trace pairs on the surface quadrature grid.
\<close>

theorem euler_operator_temperature_seed:
  "(tseed_interior_pairs env state qt \<noteq> None) = state_is_mixture env state
   \<and> (ExchangedTemperature \<in> set (snd (euler_operator env state gm bnds t nff qt)))
       = state_is_mixture env state
   \<and> fst (euler_operator env state gm bnds t nff qt)
       = - div_operator env (DOFDesc ''vol'' qt) (DOFDesc ''all_faces'' qt)
            (inviscid_flux env
               (project_fluid_state env (as_dofdesc ''vol'') (DOFDesc ''vol'' qt) state gm))
            (py_sum (map (\<lambda>(btag, b). boundary_inviscid_divergence_flux env b
                            (with_discr_tag (as_dofdesc btag) qt) gm
                            (project_fluid_state env (as_dofdesc ''vol'')
                               (with_discr_tag (as_dofdesc btag) qt) state gm) t nff) bnds)
             + py_sum (map (\<lambda>state_pair. inviscid_facial_flux env gm state_pair nff)
                           (make_fluid_state_trace_pairs env (cv_interior_pairs env state qt)
                              gm (tseed_interior_pairs env state qt))))
   \<and> (\<not> state_is_mixture env state
       \<longrightarrow> tseed_interior_pairs env state qt = None
           \<and> euler_operator
                (env\<lparr>interior_trace_pairs_temperature := itp, project_temperature := pt\<rparr>)
                state gm bnds t nff qt
             = euler_operator env state gm bnds t nff qt)
   \<and> (state_is_mixture env state
       \<longrightarrow> tseed_interior_pairs env state qt
           = Some (map (interp_to_surf_quad (project_temperature env) qt)
                       (interior_trace_pairs_temperature env (state_temperature env state))))"
proof -
  have a: "(tseed_interior_pairs env state qt \<noteq> None) = state_is_mixture env state"
    by (simp add: tseed_interior_pairs_def)
  have b: "(ExchangedTemperature \<in> set (snd (euler_operator env state gm bnds t nff qt)))
       = state_is_mixture env state"
    by (simp add: euler_operator_exchanges)
  have d: "\<not> state_is_mixture env state
       \<longrightarrow> tseed_interior_pairs env state qt = None
           \<and> euler_operator
                (env\<lparr>interior_trace_pairs_temperature := itp, project_temperature := pt\<rparr>)
                state gm bnds t nff qt
             = euler_operator env state gm bnds t nff qt"
    using euler_operator_no_mixture [where env = env and state = state and itp = itp
        and pt = pt and gm = gm and bnds = bnds and t = t and nff = nff and qt = qt]
    by (simp add: tseed_interior_pairs_def)
  have e: "state_is_mixture env state
       \<longrightarrow> tseed_interior_pairs env state qt
           = Some (map (interp_to_surf_quad (project_temperature env) qt)
                       (interior_trace_pairs_temperature env (state_temperature env state)))"
    by (simp add: tseed_interior_pairs_def)
  show ?thesis by (intro conjI a b d e euler_operator_result)
qed

theorem euler_operator_temperature_seed_witness:
  "\<not> state_is_mixture example_env (5, False)
   \<and> tseed_interior_pairs example_env (5, False) None = None
   \<and> euler_operator example_env (5, False) () [(''wall'', 1)] 0 () None
       = (- 22, [ExchangedCV])
   \<and> euler_operator
        (example_env\<lparr>interior_trace_pairs_temperature := (\<lambda>t. []),
                      project_temperature := (\<lambda>a b x. x + 1)\<rparr>)
        (5, False) () [(''wall'', 1)] 0 () None
       = (- 22, [ExchangedCV])
   \<and> state_is_mixture example_env (5, True)
   \<and> tseed_interior_pairs example_env (5, True) None
       = Some [(DOFDesc ''int_faces'' None, \<lparr>interior = 105, exterior = 107\<rparr>)]
   \<and> euler_operator example_env (5, True) () [(''wall'', 1)] 0 () None
       = (- 1022, [ExchangedCV, ExchangedTemperature])"
proof -
  note t1 = euler_operator_temperature_seed [where env = example_env and state = "(5, False)"
      and qt = None and gm = "()" and bnds = "[(''wall'', 1)]" and t = 0 and nff = "()"
      and itp = "\<lambda>t. []" and pt = "\<lambda>a b x. x + 1"]
  note t2 = euler_operator_temperature_seed [where env = example_env and state = "(5, True)"
      and qt = None and gm = "()" and bnds = "[(''wall'', 1)]" and t = 0 and nff = "()"
      and itp = "\<lambda>t. []" and pt = "\<lambda>a b x. x + 1"]
  have m1: "\<not> state_is_mixture example_env (5, False)"
    by (simp add: example_env_def)
  have m2: "state_is_mixture example_env (5, True)"
    by (simp add: example_env_def)
  have a: "tseed_interior_pairs example_env (5, False) None = None"
    using t1 m1 by blast
  have b: "euler_operator example_env (5, False) () [(''wall'', 1)] 0 () None
       = (- 22, [ExchangedCV])"
    by (simp add: euler_operator_def Let_def example_env_def cv_interior_pairs_def
        tseed_interior_pairs_def py_sum_def interp_to_surf_quad_def with_discr_tag_def
        as_dofdesc_def)
  have c: "euler_operator
        (example_env\<lparr>interior_trace_pairs_temperature := (\<lambda>t. []),
                      project_temperature := (\<lambda>a b x. x + 1)\<rparr>)
        (5, False) () [(''wall'', 1)] 0 () None
       = euler_operator example_env (5, False) () [(''wall'', 1)] 0 () None"
    using t1 m1 by blast
  have d: "tseed_interior_pairs example_env (5, True) None
       = Some (map (interp_to_surf_quad (project_temperature example_env) None)
                   (interior_trace_pairs_temperature example_env
                      (state_temperature example_env (5, True))))"
    using t2 m2 by blast
  have e: "map (interp_to_surf_quad (project_temperature example_env) None)
                   (interior_trace_pairs_temperature example_env
                      (state_temperature example_env (5, True)))
       = [(DOFDesc ''int_faces'' None, \<lparr>interior = 105, exterior = 107\<rparr>)]"
    by (simp add: example_env_def interp_to_surf_quad_def with_discr_tag_def)
  have f: "euler_operator example_env (5, True) () [(''wall'', 1)] 0 () None
       = (- 1022, [ExchangedCV, ExchangedTemperature])"
    by (simp add: euler_operator_def Let_def example_env_def cv_interior_pairs_def
        tseed_interior_pairs_def py_sum_def interp_to_surf_quad_def with_discr_tag_def
        as_dofdesc_def)
  show ?thesis using m1 m2 a b c d e f by simp
qed


end
